theory Spec2Isabelle
  imports Main "HOL-Library.AList" "HOL-Library.DAList"
begin

section \<open>Strings and numbers as the host language renders them\<close>

text \<open>
  The source is TypeScript. Three conversions of the host language are used by the code:
  a number spliced into a template literal (\<open>`#${T.id}`\<close>, \<open>'' + T.id\<close>), the
  ASCII lower-casing that an HTML document applies to attribute names, and the upper-case
  \<open>nodeName\<close> of an HTML element.
\<close>

fun string_of_nat :: "nat \<Rightarrow> string" where
  "string_of_nat n =
     (if n < 10 then [''0123456789'' ! n]
      else string_of_nat (n div 10) @ [''0123456789'' ! (n mod 10)])"

declare string_of_nat.simps [simp del]

definition string_of_int :: "int \<Rightarrow> string" where
  "string_of_int i =
     (if i < 0 then CHR ''-'' # string_of_nat (nat (- i)) else string_of_nat (nat i))"

definition ascii_lower :: "char \<Rightarrow> char" where
  "ascii_lower c =
     (case map_of (zip ''ABCDEFGHIJKLMNOPQRSTUVWXYZ'' ''abcdefghijklmnopqrstuvwxyz'') c of
        Some l \<Rightarrow> l
      | None \<Rightarrow> c)"

definition ascii_upper :: "char \<Rightarrow> char" where
  "ascii_upper c =
     (case map_of (zip ''abcdefghijklmnopqrstuvwxyz'' ''ABCDEFGHIJKLMNOPQRSTUVWXYZ'') c of
        Some u \<Rightarrow> u
      | None \<Rightarrow> c)"

definition toLowerCase :: "string \<Rightarrow> string" where
  "toLowerCase s = map ascii_lower s"

definition toUpperCase :: "string \<Rightarrow> string" where
  "toUpperCase s = map ascii_upper s"

section \<open>Exceptions and the log\<close>

text \<open>
  Every exception of the source is a value. \<open>TypeError\<close> is a method call on
  \<open>undefined\<close> (the \<open>rootNode\<close> getter when the document has no story data element),
  \<open>NotFoundError\<close> is \<open>removeChild\<close> on a node that is not a child and
  \<open>InvalidCharacterError\<close> is \<open>setAttribute\<close> with a name the host refuses.
  A value thrown by a hook or by a transform is only ever caught and printed, so it is
  represented by the text that the source's \<open>${e?.message ? e.message : e}\<close> yields
  for it.
\<close>

datatype error = TypeError | NotFoundError | InvalidCharacterError

type_synonym thrown = string

text \<open>
  Console and logger output, in the order it is produced. The string arguments of a console
  call are kept; function and element arguments are dropped. \<open>Callback\<close> is a notification
  sent to a collaborator outside this file (the load controller, the addon plugin manager).
\<close>

datatype log_entry =
    ConsoleLog string "string list"
  | ConsoleWarn string
  | ConsoleError string "string list"
  | LoggerError string
  | LoggerInfo string
  | Callback string "string list"

section \<open>The render tree\<close>

text \<open>
  An element has an identity (\<open>eid\<close>, which stands for the object identity that
  \<open>removeChild\<close> compares), a tag name, attributes in insertion order and child nodes;
  a child node is an element or character data. Tag and attribute names are stored in lower
  case, as an HTML document does.
\<close>

datatype 'e child = TextNode string | ElementNode 'e

datatype element =
  Element (eid: nat) (tagName: string) (attributes: "(string \<times> string) list")
          (childNodes: "element child list")

type_synonym document = element

text \<open>What the host decides and the source does not: which attribute names
  \<open>setAttribute\<close> accepts, the serialisation \<open>outerHTML\<close>, and the message text of the
  host's own exceptions.\<close>

record host =
  validName :: "string \<Rightarrow> bool"
  outerHTML :: "element \<Rightarrow> string"
  builtinMessage :: "error \<Rightarrow> string"

fun descendantsOrSelf :: "element \<Rightarrow> element list" where
  "descendantsOrSelf (Element i g as cs) =
     Element i g as cs #
     concat (map (\<lambda>c. case c of TextNode _ \<Rightarrow> [] | ElementNode e \<Rightarrow> descendantsOrSelf e) cs)"

definition descendants :: "element \<Rightarrow> element list" where
  "descendants el =
     concat (map (\<lambda>c. case c of TextNode _ \<Rightarrow> [] | ElementNode e \<Rightarrow> descendantsOrSelf e)
                 (childNodes el))"

text \<open>\<open>el.getElementsByTagName(t)\<close>: the descendants of \<open>el\<close> with that tag, in document
  order, \<open>el\<close> itself excluded.\<close>

definition getElementsByTagName :: "string \<Rightarrow> element \<Rightarrow> element list" where
  "getElementsByTagName t el = filter (\<lambda>e. tagName e = t) (descendants el)"

text \<open>\<open>document.getElementsByTagName(t)\<close>: every element of the document with that tag,
  the document element included.\<close>

definition documentGetElementsByTagName :: "string \<Rightarrow> document \<Rightarrow> element list" where
  "documentGetElementsByTagName t d = filter (\<lambda>e. tagName e = t) (descendantsOrSelf d)"

definition nodeName :: "element child \<Rightarrow> string" where
  "nodeName c = (case c of TextNode _ \<Rightarrow> ''#text'' | ElementNode e \<Rightarrow> toUpperCase (tagName e))"

definition getAttribute :: "string \<Rightarrow> element \<Rightarrow> string option" where
  "getAttribute n el = map_of (attributes el) (toLowerCase n)"

text \<open>\<open>setAttr\<close> is \<open>setAttribute\<close> with a name that every host accepts (the literal
  names of the source); \<open>setAttribute\<close> is the call with a name that comes from a caller.\<close>

definition setAttr :: "string \<Rightarrow> string \<Rightarrow> element \<Rightarrow> element" where
  "setAttr n v el =
     Element (eid el) (tagName el) (AList.update (toLowerCase n) v (attributes el)) (childNodes el)"

definition setAttribute :: "host \<Rightarrow> string \<Rightarrow> string \<Rightarrow> element \<Rightarrow> error + element" where
  "setAttribute h n v el = (if validName h n then Inr (setAttr n v el) else Inl InvalidCharacterError)"

definition createElement :: "nat \<Rightarrow> string \<Rightarrow> element" where
  "createElement i t = Element i (toLowerCase t) [] []"

definition setTextContent :: "string \<Rightarrow> element \<Rightarrow> element" where
  "setTextContent v el =
     Element (eid el) (tagName el) (attributes el) (if v = [] then [] else [TextNode v])"

definition isChild :: "element \<Rightarrow> element child \<Rightarrow> bool" where
  "isChild n c = (case c of TextNode _ \<Rightarrow> False | ElementNode e \<Rightarrow> eid e = eid n)"

definition removeChild :: "element \<Rightarrow> element \<Rightarrow> error + element" where
  "removeChild parent n =
     (if list_ex (isChild n) (childNodes parent)
      then Inr (Element (eid parent) (tagName parent) (attributes parent)
                        (filter (\<lambda>c. \<not> isChild n c) (childNodes parent)))
      else Inl NotFoundError)"

definition appendChild :: "element \<Rightarrow> element \<Rightarrow> element" where
  "appendChild parent n =
     Element (eid parent) (tagName parent) (attributes parent) (childNodes parent @ [ElementNode n])"

text \<open>The source mutates the root element in place; the model computes the new root and puts
  it back where the element with its identity is.\<close>

fun putElement :: "element \<Rightarrow> element \<Rightarrow> element" where
  "putElement new (Element i g as cs) =
     (if i = eid new then new
      else Element i g as
             (map (\<lambda>c. case c of TextNode s \<Rightarrow> TextNode s
                                 | ElementNode e \<Rightarrow> ElementNode (putElement new e)) cs))"

section \<open>HtmlTagSrcHook\<close>

text \<open>
  A hook is an asynchronous function of the host program. \<open>Resolved b el'\<close> is a promise
  resolved with \<open>b\<close>, \<open>Rejected e el'\<close> a throw or a rejection; \<open>el'\<close> is the element as
  the hook left it. A return-mode hook sees only the source string.
\<close>

datatype hook_result = Resolved bool element | Rejected thrown element

datatype return_hook_result = ReturnResolved bool string | ReturnRejected thrown

type_synonym HtmlTagSrcHookType = "element \<Rightarrow> string \<Rightarrow> string \<Rightarrow> hook_result"

type_synonym HtmlTagSrcReturnModeHookType = "string \<Rightarrow> return_hook_result"

text \<open>The two tables are JavaScript \<open>Map\<close>s: unique keys, iterated in the order of first
  insertion, \<open>set\<close> on a present key keeps its place.\<close>

record HtmlTagSrcHook =
  hookTable :: "(string, HtmlTagSrcHookType) alist"
  hookReturnModeTable :: "(string, HtmlTagSrcReturnModeHookType) alist"

definition addHook ::
  "string \<Rightarrow> HtmlTagSrcHookType \<Rightarrow> HtmlTagSrcHook \<Rightarrow> HtmlTagSrcHook \<times> log_entry list" where
  "addHook hookKey hook this =
     (this\<lparr>hookTable := DAList.update hookKey hook (hookTable this)\<rparr>,
      if DAList.lookup (hookTable this) hookKey \<noteq> None
      then [ConsoleError ''[HtmlTagSrcHook] addHook: hookKey already exist!'' [hookKey],
            LoggerError (''[HtmlTagSrcHook] addHook: hookKey['' @ hookKey @ ''] already exist!'')]
      else [])"

definition addReturnModeHook ::
  "string \<Rightarrow> HtmlTagSrcReturnModeHookType \<Rightarrow> HtmlTagSrcHook \<Rightarrow> HtmlTagSrcHook \<times> log_entry list"
  where
  "addReturnModeHook hookKey hook this =
     (this\<lparr>hookReturnModeTable := DAList.update hookKey hook (hookReturnModeTable this)\<rparr>,
      if DAList.lookup (hookReturnModeTable this) hookKey \<noteq> None
      then [ConsoleError ''[HtmlTagSrcHook] addReturnModeHook: hookKey already exist!'' [hookKey],
            LoggerError (''[HtmlTagSrcHook] addReturnModeHook: hookKey['' @ hookKey
                         @ ''] already exist!'')]
      else [])"

definition returnModeErrorLog :: "string \<Rightarrow> thrown \<Rightarrow> log_entry list" where
  "returnModeErrorLog hookKey e =
     [ConsoleError ''[HtmlTagSrcHook] doHookCallback: call hookKey error'' [hookKey, e],
      LoggerError (''[HtmlTagSrcHook] doHookCallback: call hookKey['' @ hookKey @ ''] error [''
                   @ e @ '']'')]"

definition hookErrorLog :: "string \<Rightarrow> thrown \<Rightarrow> log_entry list" where
  "hookErrorLog hookKey e =
     [ConsoleError ''[HtmlTagSrcHook] doHook: call hookKey error'' [hookKey, e],
      LoggerError (''[HtmlTagSrcHook] doHook: call hookKey['' @ hookKey @ ''] error [''
                   @ e @ '']'')]"

text \<open>The first loop of \<open>doHook\<close>, over \<open>hookReturnModeTable\<close>. The result is
  \<open>(returned, el, log)\<close>: \<open>returned\<close> says that the loop left \<open>doHook\<close> through
  \<open>return true\<close>. The \<open>setAttribute\<close> call is inside the \<open>try\<close>.\<close>

fun returnModeLoop ::
  "host \<Rightarrow> string \<Rightarrow> string \<Rightarrow> (string \<times> HtmlTagSrcReturnModeHookType) list \<Rightarrow> element
   \<Rightarrow> bool \<times> element \<times> log_entry list" where
  "returnModeLoop h field mlSrc [] el = (False, el, [])"
| "returnModeLoop h field mlSrc ((hookKey, hook) # rest) el =
     (case hook mlSrc of
        ReturnResolved ok v \<Rightarrow>
          (if ok then
             (case setAttribute h field v el of
                Inr el' \<Rightarrow> (True, el', [])
              | Inl e \<Rightarrow>
                  (case returnModeLoop h field mlSrc rest el of
                     (r, el', lg) \<Rightarrow>
                       (r, el', returnModeErrorLog hookKey (builtinMessage h e) @ lg)))
           else returnModeLoop h field mlSrc rest el)
      | ReturnRejected e \<Rightarrow>
          (case returnModeLoop h field mlSrc rest el of
             (r, el', lg) \<Rightarrow> (r, el', returnModeErrorLog hookKey e @ lg)))"

text \<open>The second loop, over \<open>hookTable\<close>; each hook receives the element itself.\<close>

fun hookLoop ::
  "host \<Rightarrow> string \<Rightarrow> string \<Rightarrow> (string \<times> HtmlTagSrcHookType) list \<Rightarrow> element
   \<Rightarrow> bool \<times> element \<times> log_entry list" where
  "hookLoop h field mlSrc [] el = (False, el, [])"
| "hookLoop h field mlSrc ((hookKey, hook) # rest) el =
     (case hook el mlSrc field of
        Resolved ok el1 \<Rightarrow>
          (if ok then (True, el1, []) else hookLoop h field mlSrc rest el1)
      | Rejected e el1 \<Rightarrow>
          (case hookLoop h field mlSrc rest el1 of
             (r, el', lg) \<Rightarrow> (r, el', hookErrorLog hookKey e @ lg)))"

definition doHook ::
  "host \<Rightarrow> HtmlTagSrcHook \<Rightarrow> element \<Rightarrow> string \<Rightarrow> error + (bool \<times> element \<times> log_entry list)"
  where
  "doHook h this el field =
     (case getAttribute (''ML-'' @ field) el of
        None \<Rightarrow>
          Inr (False, el,
               [ConsoleError (''[HtmlTagSrcHook] doHook: no ML-'' @ field) [outerHTML h el],
                LoggerError (''[HtmlTagSrcHook] doHook: no ML-'' @ field @ '' ['' @ outerHTML h el
                             @ '']'')])
      | Some mlSrc \<Rightarrow>
          if mlSrc = [] then
            Inr (False, el,
                 [ConsoleError (''[HtmlTagSrcHook] doHook: no ML-'' @ field) [outerHTML h el],
                  LoggerError (''[HtmlTagSrcHook] doHook: no ML-'' @ field @ '' ['' @ outerHTML h el
                               @ '']'')])
          else
            (case returnModeLoop h field mlSrc (DAList.impl_of (hookReturnModeTable this)) el of
               (r1, el1, lg1) \<Rightarrow>
                 if r1 then Inr (True, el1, lg1)
                 else
                   (case hookLoop h field mlSrc (DAList.impl_of (hookTable this)) el1 of
                      (r2, el2, lg2) \<Rightarrow>
                        if r2 then Inr (True, el2, lg1 @ lg2)
                        else
                          (case setAttribute h ''ML-src_replace_failed'' ''1'' el2 of
                             Inl e \<Rightarrow> Inl e
                           | Inr el3 \<Rightarrow>
                               (case setAttribute h field mlSrc el3 of
                                  Inl e \<Rightarrow> Inl e
                                | Inr el4 \<Rightarrow> Inr (False, el4, lg1 @ lg2))))))"

section \<open>Content records and snapshots\<close>

text \<open>
  Modelled from the spec: the record and snapshot types are declared in SC2DataInfoCache,
  which is not part of this file. A ContentRecord is
  \<open>{ id?, name, content, tags?, position?, size? }\<close>, a Snapshot is a source label with the
  ordered scripts, styles and passages. The fields keep the names the code reads
  (\<open>T.id\<close>, \<open>T.name\<close>, \<open>sc.scriptFileItems.items\<close>, ...); \<open>id\<close> is a number holding
  an integer, or \<open>undefined\<close>; \<open>tags\<close> is an array, since the code joins it.
\<close>

record ContentRecord =
  id' :: "int option"
  name :: string
  content :: string
  tags :: "string list option"
  position :: "string option"
  size' :: "string option"

record SC2DataInfo =
  dataSource :: string
  scriptFileItems :: "ContentRecord list"
  styleFileItems :: "ContentRecord list"
  passageDataItems :: "ContentRecord list"

text \<open>\<open>new SC2DataInfo(log, 'EmptyMod')\<close>\<close>

definition EmptyMod :: SC2DataInfo where
  "EmptyMod = \<lparr>dataSource = ''EmptyMod'', scriptFileItems = [], styleFileItems = [],
               passageDataItems = []\<rparr>"

text \<open>lodash's \<open>isSafeInteger\<close>: an integer of magnitude at most \<open>2^53 - 1\<close>.\<close>

definition isSafeInteger :: "int option \<Rightarrow> bool" where
  "isSafeInteger v =
     (case v of None \<Rightarrow> False | Some i \<Rightarrow> - 9007199254740991 \<le> i \<and> i \<le> 9007199254740991)"

text \<open>The comparator that \<open>makeScriptNode\<close> passes to \<open>sort\<close>, with its fall-through.\<close>

definition scriptItemCompare :: "ContentRecord \<Rightarrow> ContentRecord \<Rightarrow> int" where
  "scriptItemCompare a b =
     (let rest = (if isSafeInteger (id' a) then - 1 else if isSafeInteger (id' b) then 1 else 0)
      in if isSafeInteger (id' a) \<and> isSafeInteger (id' b) then
           (case (id' a, id' b) of
              (Some x, Some y) \<Rightarrow>
                if x < y then - 1 else if x = y then 0 else if x > y then 1 else rest
            | _ \<Rightarrow> rest)
         else rest)"

text \<open>
  \<open>Array.prototype.sort\<close> with a comparator is stable (ECMAScript 2019): elements that
  compare equal keep their order, and an element moves in front of another only when the
  comparator puts it there. For a comparator that is a consistent ordering, stable insertion
  computes that result.
\<close>

fun insertSorted :: "('a \<Rightarrow> 'a \<Rightarrow> int) \<Rightarrow> 'a \<Rightarrow> 'a list \<Rightarrow> 'a list" where
  "insertSorted cmp x [] = [x]"
| "insertSorted cmp x (y # ys) = (if cmp x y \<le> 0 then x # y # ys else y # insertSorted cmp x ys)"

definition arraySort :: "('a \<Rightarrow> 'a \<Rightarrow> int) \<Rightarrow> 'a list \<Rightarrow> 'a list" where
  "arraySort cmp xs = foldr (insertSorted cmp) xs []"

definition idText :: "int option \<Rightarrow> string" where
  "idText v = (case v of None \<Rightarrow> ''undefined'' | Some i \<Rightarrow> string_of_int i)"

fun join :: "string \<Rightarrow> string list \<Rightarrow> string" where
  "join sep [] = []"
| "join sep [x] = x"
| "join sep (x # y # ys) = x @ sep @ join sep (y # ys)"

definition styleEntry :: "ContentRecord \<Rightarrow> string" where
  "styleEntry T =
     ''/* twine-user-stylesheet #'' @ idText (id' T) @ '': '' @ [CHR 0x22] @ name T @ [CHR 0x22]
     @ '' */'' @ content T @ [CHR 0x0A]"

definition scriptEntry :: "ContentRecord \<Rightarrow> string" where
  "scriptEntry T =
     ''/* twine-user-script #'' @ idText (id' T) @ '': '' @ [CHR 0x22] @ name T @ [CHR 0x22]
     @ '' */'' @ content T @ [CHR 0x0A]"

text \<open>The three node builders take the identity of the element that \<open>createElement\<close>
  returns.\<close>

definition makePassageNode :: "nat \<Rightarrow> ContentRecord \<Rightarrow> element" where
  "makePassageNode i T =
     (let s = createElement i ''tw-passagedata'';
          s = (case id' T of
                 Some n \<Rightarrow> if n \<noteq> 0 \<and> n > 0 then setAttr ''pid'' (string_of_int n) s else s
               | None \<Rightarrow> s);
          s = setAttr ''name'' (name T) s;
          s = setAttr ''tags'' (case tags T of None \<Rightarrow> [] | Some ts \<Rightarrow> join '' '' ts) s;
          s = (case position T of
                 Some p \<Rightarrow> if p \<noteq> [] then setAttr ''position'' p s else s
               | None \<Rightarrow> s);
          s = (case size' T of
                 Some z \<Rightarrow> if z \<noteq> [] then setAttr ''size'' z s else s
               | None \<Rightarrow> s)
      in setTextContent (content T) s)"

definition makeStyleNode :: "nat \<Rightarrow> SC2DataInfo \<Rightarrow> element" where
  "makeStyleNode i sc =
     (let newStyleNodeContent = foldl (\<lambda>acc T. acc @ styleEntry T) [] (styleFileItems sc);
          newStyleNode = createElement i ''style'';
          newStyleNode = setAttr ''type'' ''text/twine-css'' newStyleNode;
          newStyleNode = setAttr ''role'' ''stylesheet'' newStyleNode;
          newStyleNode = setAttr ''id'' ''twine-user-stylesheet'' newStyleNode
      in setTextContent newStyleNodeContent newStyleNode)"

text \<open>\<open>makeScriptNode\<close> also stores the sorted array back into its argument; the second
  component is the argument as the call leaves it.\<close>

definition makeScriptNode :: "nat \<Rightarrow> SC2DataInfo \<Rightarrow> element \<times> SC2DataInfo" where
  "makeScriptNode i sc =
     (let sc = sc\<lparr>scriptFileItems := arraySort scriptItemCompare (scriptFileItems sc)\<rparr>;
          newScriptNodeContent = foldl (\<lambda>acc T. acc @ scriptEntry T) [] (scriptFileItems sc);
          newScriptNode = createElement i ''script'';
          newScriptNode = setAttr ''type'' ''text/twine-javascript'' newScriptNode;
          newScriptNode = setAttr ''role'' ''script'' newScriptNode;
          newScriptNode = setAttr ''id'' ''twine-user-script'' newScriptNode
      in (setTextContent newScriptNodeContent newScriptNode, sc))"

section \<open>SC2DataManager\<close>

text \<open>
  A transform (\<open>rp.applyReplacePatcher\<close>) edits the snapshot it is given in place and may
  throw part way: \<open>Returned v\<close> and \<open>Threw e v\<close> both carry the snapshot as the call
  leaves it.
\<close>

datatype transform_result = Returned SC2DataInfo | Threw thrown SC2DataInfo

record ReplacePatcher =
  patchFileName :: string
  rp_applyReplacePatcher :: "SC2DataInfo \<Rightarrow> transform_result"

record ModInfo =
  cache :: SC2DataInfo
  replacePatcher :: "ReplacePatcher list"

record SimulateMergeResult =
  styleConflict :: "string list"
  scriptConflict :: "string list"
  passageConflict :: "string list"

text \<open>
  The functions of this repository that the manager calls and that live in other files.
  \<open>capture scripts styles passages\<close> is
  \<open>new SC2DataInfoCache(log, 'orgin', scripts, styles, passages)\<close>;
  \<open>normalMerge\<close> and \<open>replaceMerge\<close> give the content that
  \<open>normalMergeSC2DataInfoCache\<close> and \<open>replaceMergeSC2DataInfoCache\<close> compute;
  \<open>clean\<close> is the snapshot's \<open>clean()\<close>; \<open>loadMod\<close> gives the mod table and the
  load order that \<open>ModLoader.loadMod\<close> leaves, or rejects; \<open>checkModConflictList\<close> is the
  loader's conflict report.
\<close>

record ext =
  capture :: "element list \<Rightarrow> element list \<Rightarrow> element list \<Rightarrow> SC2DataInfo"
  normalMerge :: "SC2DataInfo list \<Rightarrow> SC2DataInfo"
  replaceMerge :: "SC2DataInfo \<Rightarrow> SC2DataInfo \<Rightarrow> SC2DataInfo"
  clean :: "SC2DataInfo \<Rightarrow> SC2DataInfo"
  loadMod :: "(string \<rightharpoonup> ModInfo) \<Rightarrow> string list \<Rightarrow> error + (string \<rightharpoonup> ModInfo) \<times> string list"
  checkModConflictList ::
    "(string \<rightharpoonup> ModInfo) \<Rightarrow> string list \<Rightarrow> (SC2DataInfo \<times> SimulateMergeResult) list"

text \<open>
  The manager's state. Snapshot objects live in \<open>heap\<close>, an object is its index, and a new
  object goes to the end; the two cache fields hold object references. The merge functions
  fold into their first argument and return it, and a transform edits its argument, so the
  model writes their results to that object. \<open>nextId\<close> is the identity of the next element
  that \<open>createElement\<close> returns, \<open>logged\<close> the console and logger output so far.
\<close>

record manager =
  document :: document
  nextId :: nat
  heap :: "SC2DataInfo list"
  originSC2DataInfoCache :: "nat option"
  cSC2DataInfoAfterPatchCache :: "nat option"
  modCache :: "string \<rightharpoonup> ModInfo"
  modOrder :: "string list"
  conflictResult :: "(SC2DataInfo \<times> SimulateMergeResult) list option"
  startInitOk :: bool
  logged :: "log_entry list"

definition say :: "log_entry list \<Rightarrow> manager \<Rightarrow> manager" where
  "say es s = s\<lparr>logged := logged s @ es\<rparr>"

definition rootNode :: "document \<Rightarrow> element option" where
  "rootNode d = (case documentGetElementsByTagName ''tw-storydata'' d of [] \<Rightarrow> None | r # _ \<Rightarrow> Some r)"

definition styleNode :: "document \<Rightarrow> error + element list" where
  "styleNode d =
     (case rootNode d of None \<Rightarrow> Inl TypeError | Some r \<Rightarrow> Inr (getElementsByTagName ''style'' r))"

definition scriptNode :: "document \<Rightarrow> error + element list" where
  "scriptNode d =
     (case rootNode d of None \<Rightarrow> Inl TypeError | Some r \<Rightarrow> Inr (getElementsByTagName ''script'' r))"

definition passageDataNodeList :: "document \<Rightarrow> error + element list" where
  "passageDataNodeList d =
     (case rootNode d of
        None \<Rightarrow> Inl TypeError
      | Some r \<Rightarrow> Inr (getElementsByTagName ''tw-passagedata'' r))"

text \<open>\<open>rNodes.length !== 1\<close> and \<open>rNodes[0]\<close> are the one pattern match on \<open>[rNode]\<close>;
  a collection is never falsy, so the \<open>!rNodes\<close> branches are dead.\<close>

definition checkSC2Data :: "document \<Rightarrow> bool \<times> log_entry list" where
  "checkSC2Data d =
     (case documentGetElementsByTagName ''tw-storydata'' d of
        [rNode] \<Rightarrow>
          if length (getElementsByTagName ''style'' rNode) \<noteq> 1
          then (False, [ConsoleError ''checkSC2Data() (stNodes.length !== 1)'' []])
          else if length (getElementsByTagName ''script'' rNode) \<noteq> 1
          then (False, [ConsoleError ''checkSC2Data() (scNodes.length !== 1)'' []])
          else if length (getElementsByTagName ''tw-storydata'' rNode) < 1
          then (False, [ConsoleError ''checkSC2Data() (passageDataNodes.length < 1)'' []])
          else if length (filter (\<lambda>T. toUpperCase T \<noteq> ''TW-PASSAGEDATA'')
                                 (map nodeName (childNodes rNode))) \<noteq> 2
          then (True, [ConsoleWarn
                  ''checkSC2Data() (nn.length !== 2) some addtion unkown node in tw-storydata''])
          else (True, [])
      | _ \<Rightarrow> (False, [ConsoleError ''checkSC2Data() (rNodes.length !== 1)'' []]))"

definition createNewSC2DataInfoFromNow :: "ext \<Rightarrow> document \<Rightarrow> error + SC2DataInfo" where
  "createNewSC2DataInfoFromNow X d =
     (case scriptNode d of
        Inl e \<Rightarrow> Inl e
      | Inr scripts \<Rightarrow>
          (case styleNode d of
             Inl e \<Rightarrow> Inl e
           | Inr styles \<Rightarrow>
               (case passageDataNodeList d of
                  Inl e \<Rightarrow> Inl e
                | Inr passages \<Rightarrow> Inr (capture X scripts styles passages))))"

text \<open>\<open>initSC2DataInfoCache\<close>, \<open>getSC2DataInfoAfterPatch\<close> and
  \<open>createNewSC2DataInfoFromNow\<close> spell out the same constructor call.\<close>

definition initSC2DataInfoCache :: "ext \<Rightarrow> manager \<Rightarrow> error + manager" where
  "initSC2DataInfoCache X s =
     (case originSC2DataInfoCache s of
        Some _ \<Rightarrow> Inr s
      | None \<Rightarrow>
          (case createNewSC2DataInfoFromNow X (document s) of
             Inl e \<Rightarrow> Inl e
           | Inr v \<Rightarrow>
               Inr (s\<lparr>heap := heap s @ [v], originSC2DataInfoCache := Some (length (heap s))\<rparr>)))"

definition getSC2DataInfoCache :: "ext \<Rightarrow> manager \<Rightarrow> error + nat option \<times> manager" where
  "getSC2DataInfoCache X s =
     (case initSC2DataInfoCache X s of
        Inl e \<Rightarrow> Inl e
      | Inr s \<Rightarrow> Inr (originSC2DataInfoCache s, s))"

text \<open>The clone that \<open>getSC2DataInfoAfterPatch\<close> hands to \<open>console.log\<close> is dropped with
  the call and takes no place in the heap.\<close>

definition getSC2DataInfoAfterPatch :: "ext \<Rightarrow> manager \<Rightarrow> error + nat \<times> manager" where
  "getSC2DataInfoAfterPatch X s =
     (case initSC2DataInfoCache X s of
        Inl e \<Rightarrow> Inl e
      | Inr s \<Rightarrow>
          (case cSC2DataInfoAfterPatchCache s of
             Some a \<Rightarrow> Inr (a, s)
           | None \<Rightarrow>
               (case createNewSC2DataInfoFromNow X (document s) of
                  Inl e \<Rightarrow> Inl e
                | Inr v \<Rightarrow>
                    Inr (length (heap s),
                         say [ConsoleLog ''getSC2DataInfoAfterPatch() init cloneSC2DataInfo'' []]
                           (s\<lparr>heap := heap s @ [v],
                              cSC2DataInfoAfterPatchCache := Some (length (heap s))\<rparr>)))))"

definition flushAfterPatchCache :: "ext \<Rightarrow> manager \<Rightarrow> error + manager" where
  "flushAfterPatchCache X s =
     (case getSC2DataInfoAfterPatch X (s\<lparr>cSC2DataInfoAfterPatchCache := None\<rparr>) of
        Inl e \<Rightarrow> Inl e
      | Inr (_, s) \<Rightarrow> Inr s)"

definition earlyResetSC2DataInfoCache :: "ext \<Rightarrow> manager \<Rightarrow> error + manager" where
  "earlyResetSC2DataInfoCache X s =
     (case initSC2DataInfoCache X s of
        Inl e \<Rightarrow> Inl e
      | Inr s \<Rightarrow> flushAfterPatchCache X s)"

definition cleanObject :: "ext \<Rightarrow> nat option \<Rightarrow> SC2DataInfo list \<Rightarrow> SC2DataInfo list" where
  "cleanObject X r h =
     (case r of None \<Rightarrow> h | Some a \<Rightarrow> if a < length h then h[a := clean X (h ! a)] else h)"

definition cleanAllCacheAfterModLoadEnd :: "ext \<Rightarrow> manager \<Rightarrow> manager" where
  "cleanAllCacheAfterModLoadEnd X s =
     (let s = s\<lparr>heap := cleanObject X (originSC2DataInfoCache s) (heap s)\<rparr>;
          s = s\<lparr>originSC2DataInfoCache := None\<rparr>;
          s = s\<lparr>heap := cleanObject X (cSC2DataInfoAfterPatchCache s) (heap s)\<rparr>
      in s\<lparr>cSC2DataInfoAfterPatchCache := None\<rparr>)"

definition replacePatchErrorLog :: "thrown \<Rightarrow> log_entry list" where
  "replacePatchErrorLog e =
     [ConsoleError ''ModLoader ====== applyReplacePatcher() Replace Patch Error: '' [e],
      LoggerError (''ModLoader ====== applyReplacePatcher() Replace Patch Error: ['' @ e @ '']'')]"

text \<open>The inner loop of \<open>applyReplacePatcher\<close>, over the transforms of one mod; \<open>t\<close> is the
  snapshot object that every transform edits.\<close>

fun applyPatchers :: "string \<Rightarrow> ReplacePatcher list \<Rightarrow> nat \<Rightarrow> manager \<Rightarrow> manager" where
  "applyPatchers modName [] t s = s"
| "applyPatchers modName (rp # rest) t s =
     (let s = say [ConsoleLog ''ModLoader ====== applyReplacePatcher() Replace Patch''
                     [modName, patchFileName rp],
                   Callback ''ReplacePatcher_start'' [modName, patchFileName rp]] s;
          s = (case rp_applyReplacePatcher rp (heap s ! t) of
                 Returned v \<Rightarrow> s\<lparr>heap := (heap s)[t := v]\<rparr>
               | Threw e v \<Rightarrow> say (replacePatchErrorLog e) (s\<lparr>heap := (heap s)[t := v]\<rparr>));
          s = say [Callback ''ReplacePatcher_end'' [modName, patchFileName rp],
                   ConsoleLog ''ModLoader ====== applyReplacePatcher() Replace Patch''
                     [modName, patchFileName rp]] s
      in applyPatchers modName rest t s)"

text \<open>The outer loop, over \<open>modOrder\<close>.\<close>

fun applyReplacePatcherLoop :: "string list \<Rightarrow> nat \<Rightarrow> manager \<Rightarrow> manager" where
  "applyReplacePatcherLoop [] t s = s"
| "applyReplacePatcherLoop (modName # rest) t s =
     (case modCache s modName of
        None \<Rightarrow>
          applyReplacePatcherLoop rest t
            (say [ConsoleError ''applyReplacePatcher() (!mod)'' [modName]] s)
      | Some m \<Rightarrow> applyReplacePatcherLoop rest t (applyPatchers modName (replacePatcher m) t s))"

definition applyReplacePatcher :: "nat \<Rightarrow> manager \<Rightarrow> manager" where
  "applyReplacePatcher t s = applyReplacePatcherLoop (modOrder s) t s"

text \<open>Modelled from the spec: \<open>cloneSC2DataInfo\<close> is a method of the snapshot class, which is
  not part of this file; "clone() deep-copies", so the clone is a new object with the content
  of the old one.\<close>

definition cloneSC2DataInfo :: "SC2DataInfo \<Rightarrow> SC2DataInfo" where
  "cloneSC2DataInfo v = v"

text \<open>
  \<open>patchModToGame\<close> from its start to the call of \<open>applyReplacePatcher\<close>. The result
  names the baseline object (\<open>originSC2DataInfoCache\<close> in the source, which is the
  after-patch cache) and the object that the merge returns
  (\<open>modSC2DataInfoCache\<close>).
\<close>

definition patchModToGame_merge :: "ext \<Rightarrow> manager \<Rightarrow> error + nat \<times> nat \<times> manager" where
  "patchModToGame_merge X s =
     (let s = say [Callback ''PatchModToGame_start'' []] s
      in case flushAfterPatchCache X (s\<lparr>cSC2DataInfoAfterPatchCache := None\<rparr>) of
           Inl e \<Rightarrow> Inl e
         | Inr s \<Rightarrow>
             (case getSC2DataInfoAfterPatch X s of
                Inl e \<Rightarrow> Inl e
              | Inr (baseline, s) \<Rightarrow>
                  (let s = say [ConsoleLog ''ModLoader ====== patchModToGame() Concat Mod'' []] s;
                       em = length (heap s);
                       s = s\<lparr>heap := heap s @ [EmptyMod]\<rparr>;
                       s = s\<lparr>heap := (heap s)
                              [em := normalMerge X
                                       (heap s ! em
                                        # map cache (List.map_filter (modCache s) (modOrder s)))]\<rparr>;
                       s = say [ConsoleLog ''ModLoader ====== patchModToGame() Replace Game'' []] s;
                       modSC2DataInfoCache = length (heap s);
                       s = s\<lparr>heap := heap s @ [cloneSC2DataInfo (heap s ! baseline)]\<rparr>;
                       s = s\<lparr>heap := (heap s)
                              [modSC2DataInfoCache :=
                                 replaceMerge X (heap s ! modSC2DataInfoCache) (heap s ! em)]\<rparr>;
                       s = applyReplacePatcher modSC2DataInfoCache s
                   in Inr (baseline, modSC2DataInfoCache, s))))"

fun removeChildren :: "element \<Rightarrow> element list \<Rightarrow> error + element" where
  "removeChildren root [] = Inr root"
| "removeChildren root (n # ns) =
     (case removeChild root n of Inl e \<Rightarrow> Inl e | Inr root \<Rightarrow> removeChildren root ns)"

text \<open>
  \<open>patchModToGame\<close> from \<open>makeScriptNode\<close> to its end. \<open>styleNode\<close> and
  \<open>scriptNode\<close> are live collections that each loop copies when it starts, so the scripts
  are those of the root after the styles are gone; \<open>passageDataNodeList\<close> is copied by
  its getter, before any removal.
\<close>

definition patchModToGame_swap :: "ext \<Rightarrow> nat \<Rightarrow> manager \<Rightarrow> error + manager" where
  "patchModToGame_swap X modSC2DataInfoCache s =
     (let (newScriptNode, sorted) = makeScriptNode (nextId s) (heap s ! modSC2DataInfoCache);
          s = s\<lparr>heap := (heap s)[modSC2DataInfoCache := sorted], nextId := nextId s + 1\<rparr>;
          newStyleNode = makeStyleNode (nextId s) (heap s ! modSC2DataInfoCache);
          s = s\<lparr>nextId := nextId s + 1\<rparr>;
          items = passageDataItems (heap s ! modSC2DataInfoCache);
          newPassageDataNode =
            map (\<lambda>(i, T). makePassageNode i T) (zip [nextId s ..< nextId s + length items] items);
          s = s\<lparr>nextId := nextId s + length items\<rparr>
      in case rootNode (document s) of
           None \<Rightarrow> Inl TypeError
         | Some root \<Rightarrow>
             (let styles = getElementsByTagName ''style'' root;
                  passages = getElementsByTagName ''tw-passagedata'' root
              in case removeChildren root styles of
                   Inl e \<Rightarrow> Inl e
                 | Inr root \<Rightarrow>
                     (case removeChildren root (getElementsByTagName ''script'' root) of
                        Inl e \<Rightarrow> Inl e
                      | Inr root \<Rightarrow>
                          (case removeChildren root passages of
                             Inl e \<Rightarrow> Inl e
                           | Inr root \<Rightarrow>
                               (let root = appendChild root newScriptNode;
                                    root = appendChild root newStyleNode;
                                    root = foldl appendChild root newPassageDataNode;
                                    s = s\<lparr>document := putElement root (document s)\<rparr>
                                in case flushAfterPatchCache X s of
                                     Inl e \<Rightarrow> Inl e
                                   | Inr s \<Rightarrow> Inr (say [Callback ''PatchModToGame_end'' []] s))))))"

definition patchModToGame :: "ext \<Rightarrow> manager \<Rightarrow> error + manager" where
  "patchModToGame X s =
     (case patchModToGame_merge X s of
        Inl e \<Rightarrow> Inl e
      | Inr (baseline, modSC2DataInfoCache, s) \<Rightarrow> patchModToGame_swap X modSC2DataInfoCache s)"

definition startInit :: "ext \<Rightarrow> manager \<Rightarrow> error + manager" where
  "startInit X s =
     (if startInitOk s
      then Inr (say [ConsoleLog ''ModLoader ====== SC2DataManager startInit() already start'' []] s)
      else
        (let s = s\<lparr>startInitOk := True\<rparr>;
             s = say [ConsoleLog ''ModLoader ====== SC2DataManager startInit() start'' []] s
         in case initSC2DataInfoCache X s of
              Inl e \<Rightarrow> Inl e
            | Inr s \<Rightarrow>
                (case loadMod X (modCache s) (modOrder s) of
                   Inl e \<Rightarrow> Inl e
                 | Inr (mc, mo) \<Rightarrow>
                     (let s = s\<lparr>modCache := mc, modOrder := mo\<rparr>;
                          s = say [Callback ''DependenceChecker.check'' []] s;
                          cr = checkModConflictList X (modCache s) (modOrder s);
                          s = s\<lparr>conflictResult := Some cr\<rparr>;
                          s = say [ConsoleLog ''ModLoader ====== mod conflictResult''
                                     (map (\<lambda>T. dataSource (fst T)) cr),
                                   Callback ''triggerHook'' [''beforePatchModToGame'']] s
                      in case patchModToGame X s of
                           Inl e \<Rightarrow> Inl e
                         | Inr s \<Rightarrow>
                             Inr (say [Callback ''triggerHook'' [''afterPatchModToGame''],
                                       LoggerInfo
                                         (''ModLoader ====== SC2DataManager startInit() end. ''
                                          @ ''To Start JsPreloader.....'')] s)))))"

section \<open>Vocabulary of the properties\<close>

text \<open>The definitions of this section are not translations of code: they name what the
  properties below say, and the inputs at which the properties are evaluated.\<close>

subsection \<open>Hooks\<close>

definition leftBy :: "hook_result \<Rightarrow> element" where
  "leftBy r = (case r of Resolved _ el \<Rightarrow> el | Rejected _ el \<Rightarrow> el)"

text \<open>A return-mode hook declines or throws.\<close>

definition returnDeclines :: "return_hook_result \<Rightarrow> bool" where
  "returnDeclines r = (case r of ReturnResolved ok _ \<Rightarrow> \<not> ok | ReturnRejected _ \<Rightarrow> True)"

text \<open>Every hook of the table declines or throws when it is called in its turn, on the
  element as the hooks before it left it.\<close>

fun everyHookDeclines ::
  "string \<Rightarrow> string \<Rightarrow> (string \<times> HtmlTagSrcHookType) list \<Rightarrow> element \<Rightarrow> bool" where
  "everyHookDeclines field mlSrc [] el = True"
| "everyHookDeclines field mlSrc ((hookKey, hook) # rest) el =
     (case hook el mlSrc field of
        Resolved ok el1 \<Rightarrow> \<not> ok \<and> everyHookDeclines field mlSrc rest el1
      | Rejected e el1 \<Rightarrow> everyHookDeclines field mlSrc rest el1)"

text \<open>The element after every hook of the table has been called on it, in table order.\<close>

definition afterHooks ::
  "string \<Rightarrow> string \<Rightarrow> (string \<times> HtmlTagSrcHookType) list \<Rightarrow> element \<Rightarrow> element" where
  "afterHooks field mlSrc tbl el = foldl (\<lambda>e kh. leftBy (snd kh e mlSrc field)) el tbl"

text \<open>What the throwing hooks leave in the log, one report per throw, in table order.\<close>

definition returnModeThrowLog ::
  "string \<Rightarrow> string \<times> HtmlTagSrcReturnModeHookType \<Rightarrow> log_entry list" where
  "returnModeThrowLog mlSrc kh =
     (case snd kh mlSrc of
        ReturnRejected e \<Rightarrow> returnModeErrorLog (fst kh) e
      | ReturnResolved _ _ \<Rightarrow> [])"

fun hookThrowLog ::
  "string \<Rightarrow> string \<Rightarrow> (string \<times> HtmlTagSrcHookType) list \<Rightarrow> element \<Rightarrow> log_entry list" where
  "hookThrowLog field mlSrc [] el = []"
| "hookThrowLog field mlSrc ((hookKey, hook) # rest) el =
     (case hook el mlSrc field of
        Resolved _ el1 \<Rightarrow> hookThrowLog field mlSrc rest el1
      | Rejected e el1 \<Rightarrow> hookErrorLog hookKey e @ hookThrowLog field mlSrc rest el1)"

text \<open>A host, hooks and elements at which the properties are evaluated. The host refuses the
  empty attribute name; the throwing hook marks the element before it throws.\<close>

definition exHost :: host where
  "exHost = \<lparr>validName = (\<lambda>n. n \<noteq> []), outerHTML = (\<lambda>el. tagName el),
             builtinMessage = (\<lambda>e. ''host error'')\<rparr>"

definition exThrowingReturnHook :: HtmlTagSrcReturnModeHookType where
  "exThrowingReturnHook src = ReturnRejected ''boom''"

definition exDecliningReturnHook :: HtmlTagSrcReturnModeHookType where
  "exDecliningReturnHook src = ReturnResolved False []"

definition exThrowingHook :: HtmlTagSrcHookType where
  "exThrowingHook el src field = Rejected ''bad'' (setAttr ''seen'' ''1'' el)"

definition exDecliningHook :: HtmlTagSrcHookType where
  "exDecliningHook el src field = Resolved False el"

definition exAcceptingHook :: HtmlTagSrcHookType where
  "exAcceptingHook el src field = Resolved True (setAttr field (''mod:'' @ src) el)"

definition exNoHooks :: HtmlTagSrcHook where
  "exNoHooks = \<lparr>hookTable = DAList.empty, hookReturnModeTable = DAList.empty\<rparr>"

definition exHooks :: HtmlTagSrcHook where
  "exHooks =
     \<lparr>hookTable = DAList.update ''d'' exDecliningHook (DAList.update ''t'' exThrowingHook DAList.empty),
      hookReturnModeTable =
        DAList.update ''rd'' exDecliningReturnHook
          (DAList.update ''rt'' exThrowingReturnHook DAList.empty)\<rparr>"

definition exImg :: element where
  "exImg = Element 7 ''img'' [(''ml-src'', ''a.png'')] []"

definition exCollidingImg :: element where
  "exCollidingImg = Element 7 ''img'' [(''ml-ml-src_replace_failed'', ''x'')] []"

definition exNamelessImg :: element where
  "exNamelessImg = Element 7 ''img'' [(''ml-'', ''x'')] []"

subsection \<open>The script order\<close>

definition idOf :: "ContentRecord \<Rightarrow> int" where
  "idOf T = (case id' T of Some i \<Rightarrow> i | None \<Rightarrow> 0)"

definition hasSafeId :: "ContentRecord \<Rightarrow> bool" where
  "hasSafeId T = isSafeInteger (id' T)"

definition lacksSafeId :: "ContentRecord \<Rightarrow> bool" where
  "lacksSafeId T = (\<not> isSafeInteger (id' T))"

text \<open>The key that the comparator orders by: the id where it is a safe integer, and a value
  above every safe integer elsewhere.\<close>

definition scriptSortKey :: "ContentRecord \<Rightarrow> int" where
  "scriptSortKey T = (if isSafeInteger (id' T) then idOf T else 9007199254740992)"

text \<open>The order as the specification words it: the records with a non-negative integer id
  first, ascending, then the others in their prior order.\<close>

definition hasNonNegativeId :: "ContentRecord \<Rightarrow> bool" where
  "hasNonNegativeId T = (isSafeInteger (id' T) \<and> 0 \<le> idOf T)"

definition lacksNonNegativeId :: "ContentRecord \<Rightarrow> bool" where
  "lacksNonNegativeId T = (\<not> hasNonNegativeId T)"

definition claimedScriptOrder :: "ContentRecord list \<Rightarrow> ContentRecord list" where
  "claimedScriptOrder xs =
     sort_key idOf (filter hasNonNegativeId xs) @ filter lacksNonNegativeId xs"

text \<open>A record with an id and a name, and a script list whose second record has the id
  \<open>-1\<close>.\<close>

definition item :: "int option \<Rightarrow> string \<Rightarrow> ContentRecord" where
  "item i n = \<lparr>id' = i, name = n, content = [], tags = None, position = None, size' = None\<rparr>"

definition exNegativeIdScripts :: SC2DataInfo where
  "exNegativeIdScripts = EmptyMod\<lparr>scriptFileItems := [item None ''a'', item (Some (- 1)) ''b'']\<rparr>"

subsection \<open>The render tree\<close>








text \<open>Documents at which the properties are evaluated: a story data element with one style,
  one script and one passage element; the same without the passage element; and the same
  with a second style element.\<close>

definition exStoryData :: "element child list \<Rightarrow> element" where
  "exStoryData cs = Element 0 ''html'' [] [ElementNode (Element 1 ''tw-storydata'' [(''name'', ''Story'')] cs)]"

definition exStyle :: element where
  "exStyle = Element 2 ''style'' [(''id'', ''twine-user-stylesheet'')] [TextNode ''body {}'']"


definition exScript :: element where
  "exScript = Element 3 ''script'' [(''id'', ''twine-user-script'')] [TextNode ''var a;'']"

definition exPassage :: element where
  "exPassage = Element 4 ''tw-passagedata'' [(''pid'', ''1''), (''name'', ''Start'')] [TextNode ''Hello'']"

definition exDocument :: document where
  "exDocument = exStoryData [ElementNode exStyle, ElementNode exScript, ElementNode exPassage]"





subsection \<open>Transforms and the manager's state\<close>

definition snapshotOf :: "transform_result \<Rightarrow> SC2DataInfo" where
  "snapshotOf r = (case r of Returned v \<Rightarrow> v | Threw _ v \<Rightarrow> v)"

definition applyAll :: "ReplacePatcher list \<Rightarrow> SC2DataInfo \<Rightarrow> SC2DataInfo" where
  "applyAll rps v = foldl (\<lambda>v rp. snapshotOf (rp_applyReplacePatcher rp v)) v rps"

fun thrownBy :: "ReplacePatcher list \<Rightarrow> SC2DataInfo \<Rightarrow> thrown list" where
  "thrownBy [] v = []"
| "thrownBy (rp # rps) v =
     (case rp_applyReplacePatcher rp v of
        Returned v' \<Rightarrow> thrownBy rps v'
      | Threw e v' \<Rightarrow> e # thrownBy rps v')"

definition patchersInOrder :: "(string \<rightharpoonup> ModInfo) \<Rightarrow> string list \<Rightarrow> (string \<times> ReplacePatcher) list" where
  "patchersInOrder mc order =
     concat (map (\<lambda>n. case mc n of None \<Rightarrow> [] | Some m \<Rightarrow> map (Pair n) (replacePatcher m)) order)"

definition patcherBracket :: "string \<times> ReplacePatcher \<Rightarrow> log_entry list" where
  "patcherBracket p =
     [Callback ''ReplacePatcher_start'' [fst p, patchFileName (snd p)],
      Callback ''ReplacePatcher_end'' [fst p, patchFileName (snd p)]]"

definition isCallback :: "log_entry \<Rightarrow> bool" where
  "isCallback x = (case x of Callback _ _ \<Rightarrow> True | _ \<Rightarrow> False)"

definition isLoggerError :: "log_entry \<Rightarrow> bool" where
  "isLoggerError x = (case x of LoggerError _ \<Rightarrow> True | _ \<Rightarrow> False)"

definition replacePatchErrorLine :: "thrown \<Rightarrow> log_entry" where
  "replacePatchErrorLine e =
     LoggerError (''ModLoader ====== applyReplacePatcher() Replace Patch Error: ['' @ e @ '']'')"

text \<open>Everything but the heap and the log.\<close>

definition sameBut :: "manager \<Rightarrow> manager \<Rightarrow> bool" where
  "sameBut s s' =
     (document s' = document s \<and> nextId s' = nextId s
      \<and> originSC2DataInfoCache s' = originSC2DataInfoCache s
      \<and> cSC2DataInfoAfterPatchCache s' = cSC2DataInfoAfterPatchCache s
      \<and> modCache s' = modCache s \<and> modOrder s' = modOrder s
      \<and> conflictResult s' = conflictResult s \<and> startInitOk s' = startInitOk s)"

definition onlyCaches :: "manager \<Rightarrow> manager \<Rightarrow> bool" where
  "onlyCaches s s' =
     (document s' = document s \<and> nextId s' = nextId s
      \<and> modCache s' = modCache s \<and> modOrder s' = modOrder s
      \<and> conflictResult s' = conflictResult s \<and> startInitOk s' = startInitOk s)"

definition modSnapshots :: "manager \<Rightarrow> SC2DataInfo list" where
  "modSnapshots s = map cache (List.map_filter (modCache s) (modOrder s))"

definition modTransforms :: "manager \<Rightarrow> ReplacePatcher list" where
  "modTransforms s = map snd (patchersInOrder (modCache s) (modOrder s))"

definition textOf :: "element \<Rightarrow> string" where
  "textOf el = concat (map (\<lambda>c. case c of TextNode s \<Rightarrow> s | ElementNode _ \<Rightarrow> []) (childNodes el))"

text \<open>Old objects keep their place and their content.\<close>

definition keepsObjects :: "manager \<Rightarrow> manager \<Rightarrow> bool" where
  "keepsObjects s s' =
     (length (heap s) \<le> length (heap s') \<and> take (length (heap s)) (heap s') = heap s)"

text \<open>The operations of the manager that can fail, as values, and sequences of them.\<close>

datatype operation =
    InitSC2DataInfoCache | GetSC2DataInfoCache | EarlyResetSC2DataInfoCache
  | GetSC2DataInfoAfterPatch | FlushAfterPatchCache | PatchModToGame | StartInit

fun perform :: "ext \<Rightarrow> operation \<Rightarrow> manager \<Rightarrow> error + manager" where
  "perform X InitSC2DataInfoCache s = initSC2DataInfoCache X s"
| "perform X GetSC2DataInfoCache s = map_sum id snd (getSC2DataInfoCache X s)"
| "perform X EarlyResetSC2DataInfoCache s = earlyResetSC2DataInfoCache X s"
| "perform X GetSC2DataInfoAfterPatch s = map_sum id snd (getSC2DataInfoAfterPatch X s)"
| "perform X FlushAfterPatchCache s = flushAfterPatchCache X s"
| "perform X PatchModToGame s = patchModToGame X s"
| "perform X StartInit s = startInit X s"

fun performAll :: "ext \<Rightarrow> operation list \<Rightarrow> manager \<Rightarrow> error + manager" where
  "performAll X [] s = Inr s"
| "performAll X (op # ops) s =
     (case perform X op s of Inl e \<Rightarrow> Inl e | Inr s' \<Rightarrow> performAll X ops s')"

text \<open>What an operation keeps: the old objects, an origin reference that is set, and the
  guard flag once it is set.\<close>

definition keeps :: "manager \<Rightarrow> manager \<Rightarrow> bool" where
  "keeps s s' =
     (keepsObjects s s'
      \<and> (\<forall>a. originSC2DataInfoCache s = Some a \<longrightarrow> originSC2DataInfoCache s' = Some a)
      \<and> (startInitOk s \<longrightarrow> startInitOk s'))"

definition isErrorReport :: "log_entry \<Rightarrow> bool" where
  "isErrorReport x = (case x of ConsoleError _ _ \<Rightarrow> True | LoggerError _ \<Rightarrow> True | _ \<Rightarrow> False)"

subsection \<open>Collaborators and inputs at which the properties are evaluated\<close>

text \<open>
  Modelled from the spec: \<open>replaceMerge\<close> and \<open>normalMerge\<close> are functions of another
  file. The properties below hold for every pair of merge functions; where a property is
  evaluated at an input, the merges are these two. \<open>specReplaceMerge\<close> replaces the base
  record of the same name at its place and appends a record whose name the base does not
  hold; \<open>specNormalMerge\<close> folds the snapshots from the left in the same way, so a later
  occurrence of a name replaces the content at the place of the first.
\<close>

fun upsert :: "ContentRecord \<Rightarrow> ContentRecord list \<Rightarrow> ContentRecord list" where
  "upsert r [] = [r]"
| "upsert r (x # xs) = (if name x = name r then r # xs else x # upsert r xs)"

definition specReplaceMerge :: "SC2DataInfo \<Rightarrow> SC2DataInfo \<Rightarrow> SC2DataInfo" where
  "specReplaceMerge base overlay =
     base\<lparr>scriptFileItems := foldl (\<lambda>acc r. upsert r acc) (scriptFileItems base) (scriptFileItems overlay),
          styleFileItems := foldl (\<lambda>acc r. upsert r acc) (styleFileItems base) (styleFileItems overlay),
          passageDataItems :=
            foldl (\<lambda>acc r. upsert r acc) (passageDataItems base) (passageDataItems overlay)\<rparr>"

definition specNormalMerge :: "SC2DataInfo list \<Rightarrow> SC2DataInfo" where
  "specNormalMerge snaps = (case snaps of [] \<Rightarrow> EmptyMod | a # rest \<Rightarrow> foldl specReplaceMerge a rest)"

text \<open>The capture of a snapshot, the mod loader and the conflict check at which the properties
  are evaluated: the capture reads the name attribute and the text of every node, the mod
  loader leaves the mod table as it is, and no conflict is found.\<close>

definition exItemOf :: "element \<Rightarrow> ContentRecord" where
  "exItemOf el =
     \<lparr>id' = None, name = (case getAttribute ''name'' el of None \<Rightarrow> [] | Some n \<Rightarrow> n),
      content = textOf el, tags = None, position = None, size' = None\<rparr>"

definition exCapture :: "element list \<Rightarrow> element list \<Rightarrow> element list \<Rightarrow> SC2DataInfo" where
  "exCapture scripts styles passages =
     \<lparr>dataSource = ''orgin'', scriptFileItems = map exItemOf scripts,
      styleFileItems = map exItemOf styles, passageDataItems = map exItemOf passages\<rparr>"

definition exLoadMod ::
  "(string \<rightharpoonup> ModInfo) \<Rightarrow> string list \<Rightarrow> error + (string \<rightharpoonup> ModInfo) \<times> string list" where
  "exLoadMod mc mo = Inr (mc, mo)"

definition exConflicts ::
  "(string \<rightharpoonup> ModInfo) \<Rightarrow> string list \<Rightarrow> (SC2DataInfo \<times> SimulateMergeResult) list" where
  "exConflicts mc mo = []"

definition exClean :: "SC2DataInfo \<Rightarrow> SC2DataInfo" where
  "exClean v = EmptyMod"

definition exExt :: ext where
  "exExt = \<lparr>capture = exCapture, normalMerge = specNormalMerge, replaceMerge = specReplaceMerge,
            clean = exClean, loadMod = exLoadMod, checkModConflictList = exConflicts\<rparr>"

text \<open>A mod with two transforms, of which the first throws and the second relabels the
  snapshot, in a manager whose load order also names a mod that the mod table does not hold.\<close>

definition exFailingApply :: "SC2DataInfo \<Rightarrow> transform_result" where
  "exFailingApply v = Threw ''boom'' v"

definition exRelabelApply :: "SC2DataInfo \<Rightarrow> transform_result" where
  "exRelabelApply v = Returned (v\<lparr>dataSource := ''patched''\<rparr>)"

definition exFailingPatcher :: "string \<Rightarrow> ReplacePatcher" where
  "exFailingPatcher f = \<lparr>patchFileName = f, rp_applyReplacePatcher = exFailingApply\<rparr>"

definition exRelabelPatcher :: ReplacePatcher where
  "exRelabelPatcher = \<lparr>patchFileName = ''relabel.json'', rp_applyReplacePatcher = exRelabelApply\<rparr>"

definition exModSnapshot :: SC2DataInfo where
  "exModSnapshot =
     \<lparr>dataSource = ''modA'', scriptFileItems = [item (Some 2) ''a.js''], styleFileItems = [],
      passageDataItems = [(item (Some 5) ''Start'')\<lparr>content := ''Hi''\<rparr>]\<rparr>"

definition exMod :: "string \<Rightarrow> ModInfo" where
  "exMod f = \<lparr>cache = exModSnapshot, replacePatcher = [exFailingPatcher f, exRelabelPatcher]\<rparr>"

definition exModCache :: "string \<Rightarrow> string \<Rightarrow> string \<rightharpoonup> ModInfo" where
  "exModCache n f k = (if k = n then Some (exMod f) else None)"

definition exManager :: manager where
  "exManager =
     \<lparr>document = exDocument, nextId = 10, heap = [], originSC2DataInfoCache = None,
      cSC2DataInfoAfterPatchCache = None, modCache = exModCache ''modA'' ''bad.json'',
      modOrder = [''modA'', ''ghost''], conflictResult = None, startInitOk = False, logged = []\<rparr>"

text \<open>What the pipeline makes of that manager: the root element, the captured snapshot, the
  patched snapshot, the new nodes, the document after the swap and its snapshot.\<close>

definition exRoot :: element where
  "exRoot = Element 1 ''tw-storydata'' [(''name'', ''Story'')]
              [ElementNode exStyle, ElementNode exScript, ElementNode exPassage]"

definition exCaptured :: SC2DataInfo where
  "exCaptured =
     \<lparr>dataSource = ''orgin'',
      scriptFileItems = [(item None [])\<lparr>content := ''var a;''\<rparr>],
      styleFileItems = [(item None [])\<lparr>content := ''body {}''\<rparr>],
      passageDataItems = [(item None ''Start'')\<lparr>content := ''Hello''\<rparr>]\<rparr>"

definition exPatched :: SC2DataInfo where
  "exPatched =
     \<lparr>dataSource = ''patched'',
      scriptFileItems = [(item None [])\<lparr>content := ''var a;''\<rparr>, item (Some 2) ''a.js''],
      styleFileItems = [(item None [])\<lparr>content := ''body {}''\<rparr>],
      passageDataItems = [(item (Some 5) ''Start'')\<lparr>content := ''Hi''\<rparr>]\<rparr>"

definition exNewScript :: element where
  "exNewScript =
     Element 10 ''script''
       [(''type'', ''text/twine-javascript''), (''role'', ''script''), (''id'', ''twine-user-script'')]
       [TextNode (scriptEntry (item (Some 2) ''a.js'') @ scriptEntry ((item None [])\<lparr>content := ''var a;''\<rparr>))]"

definition exNewStyle :: element where
  "exNewStyle =
     Element 11 ''style''
       [(''type'', ''text/twine-css''), (''role'', ''stylesheet''), (''id'', ''twine-user-stylesheet'')]
       [TextNode (styleEntry ((item None [])\<lparr>content := ''body {}''\<rparr>))]"

definition exNewPassage :: element where
  "exNewPassage =
     Element 12 ''tw-passagedata'' [(''pid'', ''5''), (''name'', ''Start''), (''tags'', [])]
       [TextNode ''Hi'']"

definition exSwappedDocument :: document where
  "exSwappedDocument =
     exStoryData [ElementNode exNewScript, ElementNode exNewStyle, ElementNode exNewPassage]"

definition exRecaptured :: SC2DataInfo where
  "exRecaptured =
     \<lparr>dataSource = ''orgin'',
      scriptFileItems =
        [(item None [])\<lparr>content := scriptEntry (item (Some 2) ''a.js'')
                                     @ scriptEntry ((item None [])\<lparr>content := ''var a;''\<rparr>)\<rparr>],
      styleFileItems = [(item None [])\<lparr>content := styleEntry ((item None [])\<lparr>content := ''body {}''\<rparr>)\<rparr>],
      passageDataItems = [(item None ''Start'')\<lparr>content := ''Hi''\<rparr>]\<rparr>"


definition exPatchState :: "string \<Rightarrow> string \<Rightarrow> manager" where
  "exPatchState n f = exManager\<lparr>heap := [exCaptured], modCache := exModCache n f, modOrder := [n]\<rparr>"

definition exCapturedState :: manager where
  "exCapturedState = exManager\<lparr>heap := [exCaptured], originSC2DataInfoCache := Some 0\<rparr>"

section \<open>Properties\<close>

subsection \<open>Registering and running hooks\<close>

lemma getAttribute_setAttr:
  "getAttribute n (setAttr n' v el) =
     (if toLowerCase n = toLowerCase n' then Some v else getAttribute n el)"
  by (simp add: getAttribute_def setAttr_def update_conv')

lemma returnModeLoop_all_decline:
  "list_all (\<lambda>kh. returnDeclines (snd kh mlSrc)) tbl \<Longrightarrow>
   returnModeLoop h field mlSrc tbl el = (False, el, concat (map (returnModeThrowLog mlSrc) tbl))"
  by (induction tbl)
     (auto simp: returnDeclines_def returnModeThrowLog_def split: return_hook_result.splits)

lemma hookLoop_all_decline:
  "everyHookDeclines field mlSrc tbl el \<Longrightarrow>
   hookLoop h field mlSrc tbl el =
     (False, afterHooks field mlSrc tbl el, hookThrowLog field mlSrc tbl el)"
proof (induction tbl arbitrary: el)
  case Nil
  then show ?case by (simp add: afterHooks_def)
next
  case (Cons kh tbl)
  obtain k hk where kh: "kh = (k, hk)" by (cases kh)
  show ?case
  proof (cases "hk el mlSrc field")
    case (Resolved ok el1)
    with Cons.prems have "\<not> ok" and "everyHookDeclines field mlSrc tbl el1" by (simp_all add: kh)
    with Resolved Cons.IH [of el1] show ?thesis by (simp add: kh afterHooks_def leftBy_def)
  next
    case (Rejected e el1)
    with Cons.prems have "everyHookDeclines field mlSrc tbl el1" by (simp add: kh)
    with Rejected Cons.IH [of el1] show ?thesis by (simp add: kh afterHooks_def leftBy_def)
  qed
qed

lemma filter_key_absent: "k \<notin> fst ` set xs \<Longrightarrow> filter (\<lambda>kh. fst kh = k) xs = []"
  by (induction xs) auto

lemma filter_key_update:
  "distinct (map fst xs) \<Longrightarrow> filter (\<lambda>kh. fst kh = k) (AList.update k v xs) = [(k, v)]"
  by (induction xs) (auto simp: filter_key_absent)

text \<open>
  C9. \<open>addHook\<close> and \<open>addReturnModeHook\<close> are total: they return the new tables and what
  they logged, and never an error. Registering under a key that is in use logs an error and
  nothing else, and leaves the table that registering the new hook alone would have left: the
  key is bound to the new hook, it occurs once, and \<open>doHook\<close> behaves as if the earlier hook
  had never been registered.
\<close>

theorem addHook_replaces:
  "DAList.lookup (hookTable (fst (addHook k h2 (fst (addHook k h1 this))))) k = Some h2
   \<and> filter (\<lambda>kh. fst kh = k)
        (DAList.impl_of (hookTable (fst (addHook k h2 (fst (addHook k h1 this)))))) = [(k, h2)]
   \<and> fst (addHook k h2 (fst (addHook k h1 this))) = fst (addHook k h2 this)
   \<and> snd (addHook k h2 (fst (addHook k h1 this))) =
       [ConsoleError ''[HtmlTagSrcHook] addHook: hookKey already exist!'' [k],
        LoggerError (''[HtmlTagSrcHook] addHook: hookKey['' @ k @ ''] already exist!'')]
   \<and> doHook h (fst (addHook k h2 (fst (addHook k h1 this)))) el field
       = doHook h (fst (addHook k h2 this)) el field
   \<and> DAList.lookup (hookReturnModeTable (fst (addReturnModeHook k r2 (fst (addReturnModeHook k r1 this))))) k
       = Some r2
   \<and> filter (\<lambda>kh. fst kh = k)
        (DAList.impl_of
           (hookReturnModeTable (fst (addReturnModeHook k r2 (fst (addReturnModeHook k r1 this))))))
       = [(k, r2)]
   \<and> fst (addReturnModeHook k r2 (fst (addReturnModeHook k r1 this))) = fst (addReturnModeHook k r2 this)
   \<and> snd (addReturnModeHook k r2 (fst (addReturnModeHook k r1 this))) =
       [ConsoleError ''[HtmlTagSrcHook] addReturnModeHook: hookKey already exist!'' [k],
        LoggerError (''[HtmlTagSrcHook] addReturnModeHook: hookKey['' @ k @ ''] already exist!'')]
   \<and> doHook h (fst (addReturnModeHook k r2 (fst (addReturnModeHook k r1 this)))) el field
       = doHook h (fst (addReturnModeHook k r2 this)) el field"
proof -
  have one: "filter (\<lambda>kh. fst kh = k) (DAList.impl_of (DAList.update k v t)) = [(k, v)]"
    for v :: 'v and t :: "(string, 'v) alist"
    by (simp add: DAList.update.rep_eq filter_key_update)
  show ?thesis by (simp add: addHook_def addReturnModeHook_def one)
qed

theorem addHook_replaces_witness:
  "DAList.impl_of (hookTable (fst (addHook ''t'' exDecliningHook exHooks)))
     = [(''t'', exDecliningHook), (''d'', exDecliningHook)]
   \<and> fst (addHook ''t'' exDecliningHook (fst (addHook ''t'' exThrowingHook exNoHooks)))
     = fst (addHook ''t'' exDecliningHook exNoHooks)"
  using addHook_replaces [of "''t''" exDecliningHook exThrowingHook exNoHooks]
  by (simp add: addHook_def exHooks_def DAList.update.rep_eq DAList.empty.rep_eq)

text \<open>
  C10, as the code has it. Take an element with a non-empty \<open>ML-<field>\<close> attribute, a
  field name that the host accepts as an attribute name and that is not, up to ASCII case,
  \<open>ML-src_replace_failed\<close> itself. If every return-mode hook declines or throws, and every
  hook of the hook table declines or throws in its turn, then \<open>doHook\<close> returns \<open>false\<close>
  and raises nothing; every hook has been called, the throwing ones are reported in the log
  and passed over; the element's \<open>field\<close> attribute holds the saved value and its
  \<open>ML-src_replace_failed\<close> attribute is \<open>1\<close>.
\<close>

theorem doHook_all_decline:
  assumes "getAttribute (''ML-'' @ field) el = Some mlSrc" and "mlSrc \<noteq> []"
    and "validName h field" and "validName h ''ML-src_replace_failed''"
    and "toLowerCase field \<noteq> ''ml-src_replace_failed''"
    and "list_all (\<lambda>kh. returnDeclines (snd kh mlSrc)) (DAList.impl_of (hookReturnModeTable this))"
    and "everyHookDeclines field mlSrc (DAList.impl_of (hookTable this)) el"
  shows "doHook h this el field =
           Inr (False,
                setAttr field mlSrc (setAttr ''ML-src_replace_failed'' ''1''
                  (afterHooks field mlSrc (DAList.impl_of (hookTable this)) el)),
                concat (map (returnModeThrowLog mlSrc) (DAList.impl_of (hookReturnModeTable this)))
                @ hookThrowLog field mlSrc (DAList.impl_of (hookTable this)) el)
         \<and> getAttribute field
             (setAttr field mlSrc (setAttr ''ML-src_replace_failed'' ''1''
                (afterHooks field mlSrc (DAList.impl_of (hookTable this)) el))) = Some mlSrc
         \<and> getAttribute ''ML-src_replace_failed''
             (setAttr field mlSrc (setAttr ''ML-src_replace_failed'' ''1''
                (afterHooks field mlSrc (DAList.impl_of (hookTable this)) el))) = Some ''1''"
proof -
  have lc: "toLowerCase ''ML-src_replace_failed'' = ''ml-src_replace_failed''"
    by (simp add: toLowerCase_def ascii_lower_def)
  from assms(5) have nc: "''ml-src_replace_failed'' \<noteq> toLowerCase field" by (rule not_sym)
  show ?thesis
    using assms(1-4) nc hookLoop_all_decline [OF assms(7), of h]
      returnModeLoop_all_decline [OF assms(6), of h field el]
    by (simp add: doHook_def setAttribute_def getAttribute_setAttr lc)
qed

theorem doHook_all_decline_witness:
  "getAttribute (''ML-'' @ ''src'') exImg = Some ''a.png''
   \<and> validName exHost ''src'' \<and> validName exHost ''ML-src_replace_failed''
   \<and> list_all (\<lambda>kh. returnDeclines (snd kh ''a.png'')) (DAList.impl_of (hookReturnModeTable exHooks))
   \<and> everyHookDeclines ''src'' ''a.png'' (DAList.impl_of (hookTable exHooks)) exImg
   \<and> doHook exHost exHooks exImg ''src'' =
       Inr (False,
            Element 7 ''img''
              [(''ml-src'', ''a.png''), (''seen'', ''1''), (''ml-src_replace_failed'', ''1''),
               (''src'', ''a.png'')] [],
            returnModeErrorLog ''rt'' ''boom'' @ hookErrorLog ''t'' ''bad'')"
proof -
  have a: "getAttribute (''ML-'' @ ''src'') exImg = Some ''a.png''"
    by (simp add: getAttribute_def exImg_def toLowerCase_def ascii_lower_def)
  have b: "validName exHost ''src''" "validName exHost ''ML-src_replace_failed''"
    by (simp_all add: exHost_def)
  have c: "toLowerCase ''src'' \<noteq> ''ml-src_replace_failed''"
    by (simp add: toLowerCase_def ascii_lower_def)
  have tr: "DAList.impl_of (hookReturnModeTable exHooks)
              = [(''rt'', exThrowingReturnHook), (''rd'', exDecliningReturnHook)]"
    by (simp add: exHooks_def DAList.update.rep_eq DAList.empty.rep_eq)
  have th: "DAList.impl_of (hookTable exHooks) = [(''t'', exThrowingHook), (''d'', exDecliningHook)]"
    by (simp add: exHooks_def DAList.update.rep_eq DAList.empty.rep_eq)
  have d: "list_all (\<lambda>kh. returnDeclines (snd kh ''a.png'')) (DAList.impl_of (hookReturnModeTable exHooks))"
    by (simp add: tr returnDeclines_def exThrowingReturnHook_def exDecliningReturnHook_def)
  have e: "everyHookDeclines ''src'' ''a.png'' (DAList.impl_of (hookTable exHooks)) exImg"
    by (simp add: th exThrowingHook_def exDecliningHook_def)
  show ?thesis
    using doHook_all_decline [OF a _ b c d e] a b d e
    by (simp add: tr th afterHooks_def leftBy_def returnModeThrowLog_def
          exThrowingHook_def exDecliningHook_def exThrowingReturnHook_def exDecliningReturnHook_def
          setAttr_def exImg_def toLowerCase_def ascii_lower_def)
qed

text \<open>
  The claim says it for every field. With the field \<open>ML-src_replace_failed\<close> the second
  \<open>setAttribute\<close> of the code overwrites the first: the marker attribute ends as the saved
  value, not as \<open>1\<close>.
\<close>

theorem doHook_marker_overwritten:
  "getAttribute (''ML-'' @ ''ML-src_replace_failed'') exCollidingImg = Some ''x''
   \<and> doHook exHost exNoHooks exCollidingImg ''ML-src_replace_failed'' =
       Inr (False,
            Element 7 ''img''
              [(''ml-ml-src_replace_failed'', ''x''), (''ml-src_replace_failed'', ''x'')] [],
            [])
   \<and> getAttribute ''ML-src_replace_failed''
        (Element 7 ''img''
           [(''ml-ml-src_replace_failed'', ''x''), (''ml-src_replace_failed'', ''x'')] [])
       \<noteq> Some ''1''"
  by (simp add: doHook_def getAttribute_def exCollidingImg_def exNoHooks_def exHost_def
        setAttribute_def setAttr_def toLowerCase_def ascii_lower_def DAList.empty.rep_eq)

text \<open>With a field that the host refuses as an attribute name (here the empty name), the
  last \<open>setAttribute\<close>, which is outside every \<open>try\<close>, raises out of \<open>doHook\<close>.\<close>

lemma doHook_refused_name:
  "doHook exHost exNoHooks exNamelessImg [] = Inl InvalidCharacterError"
  by (simp add: doHook_def getAttribute_def exNamelessImg_def exNoHooks_def exHost_def
        setAttribute_def setAttr_def toLowerCase_def ascii_lower_def DAList.empty.rep_eq)

subsection \<open>The order of the scripts\<close>

lemma scriptItemCompare_key:
  "(scriptItemCompare a b \<le> 0) = (scriptSortKey a \<le> scriptSortKey b)"
  by (auto simp: scriptItemCompare_def scriptSortKey_def isSafeInteger_def idOf_def Let_def
           split: option.splits)

lemma insertSorted_insort_key:
  "insertSorted scriptItemCompare x ys = insort_key scriptSortKey x ys"
  by (induction ys) (simp_all add: scriptItemCompare_key)

lemma arraySort_sort_key: "arraySort scriptItemCompare xs = sort_key scriptSortKey xs"
  by (induction xs) (simp_all add: arraySort_def insertSorted_insort_key)

lemma insort_key_append_low:
  "\<forall>b \<in> set B. f x \<le> f b \<Longrightarrow> insort_key f x (A @ B) = insort_key f x A @ B"
  by (induction A) (auto simp: insort_is_Cons)

lemma insort_key_append_high:
  "\<forall>a \<in> set A. f a < f x \<Longrightarrow> \<forall>b \<in> set B. f x \<le> f b \<Longrightarrow> insort_key f x (A @ B) = A @ x # B"
  by (induction A) (auto simp: insort_is_Cons)

lemma insort_key_cong_on:
  "f x = g x \<Longrightarrow> \<forall>y \<in> set ys. f y = g y \<Longrightarrow> insort_key f x ys = insort_key g x ys"
  by (induction ys) auto

lemma sort_key_cong_on: "\<forall>x \<in> set xs. f x = g x \<Longrightarrow> sort_key f xs = sort_key g xs"
proof (induction xs)
  case Nil
  then show ?case by simp
next
  case (Cons x xs)
  have "insort_key f x (sort_key g xs) = insort_key g x (sort_key g xs)"
    using Cons.prems by (intro insort_key_cong_on) simp_all
  with Cons show ?case by simp
qed

lemma sort_key_partition:
  "sort_key scriptSortKey xs = sort_key scriptSortKey (filter hasSafeId xs) @ filter lacksSafeId xs"
proof (induction xs)
  case Nil
  then show ?case by simp
next
  case (Cons x xs)
  let ?A = "sort_key scriptSortKey (filter hasSafeId xs)"
  let ?B = "filter lacksSafeId xs"
  have step: "sort_key scriptSortKey (x # xs) = insort_key scriptSortKey x (?A @ ?B)"
    using Cons.IH by simp
  show ?case
  proof (cases "hasSafeId x")
    case True
    then have lo: "\<forall>b \<in> set ?B. scriptSortKey x \<le> scriptSortKey b"
      by (auto simp: hasSafeId_def lacksSafeId_def scriptSortKey_def isSafeInteger_def idOf_def
               split: option.splits)
    from True have "\<not> lacksSafeId x" by (simp add: hasSafeId_def lacksSafeId_def)
    with True step insort_key_append_low [OF lo, of ?A] show ?thesis by simp
  next
    case False
    then have hi: "\<forall>a \<in> set ?A. scriptSortKey a < scriptSortKey x"
      by (auto simp: hasSafeId_def scriptSortKey_def isSafeInteger_def idOf_def split: option.splits)
    from False have lo: "\<forall>b \<in> set ?B. scriptSortKey x \<le> scriptSortKey b"
      by (auto simp: hasSafeId_def lacksSafeId_def scriptSortKey_def)
    from False have "lacksSafeId x" by (simp add: hasSafeId_def lacksSafeId_def)
    with False step insort_key_append_high [OF hi lo] show ?thesis by simp
  qed
qed

lemma makeScriptNode_items:
  "scriptFileItems (snd (makeScriptNode i sc)) = arraySort scriptItemCompare (scriptFileItems sc)"
  by (simp add: makeScriptNode_def Let_def)

text \<open>
  C2, as the code has it. The sort in \<open>makeScriptNode\<close> leaves the records whose id is a safe
  integer (negative ones included) first, in ascending id order and stably, followed by the
  records without such an id in their prior order; the input
  \<open>[{id:None,n:1},{id:5,n:2},{id:None,n:3},{id:2,n:4}]\<close> becomes
  \<open>[{id:2,n:4},{id:5,n:2},{id:None,n:1},{id:None,n:3}]\<close>.
\<close>

theorem makeScriptNode_sorts_safe_ids_first:
  "scriptFileItems (snd (makeScriptNode i sc)) =
     sort_key idOf (filter hasSafeId (scriptFileItems sc)) @ filter lacksSafeId (scriptFileItems sc)
   \<and> scriptFileItems (snd (makeScriptNode i
        (sc\<lparr>scriptFileItems :=
              [item None ''1'', item (Some 5) ''2'', item None ''3'', item (Some 2) ''4'']\<rparr>)))
     = [item (Some 2) ''4'', item (Some 5) ''2'', item None ''1'', item None ''3'']"
proof -
  have "sort_key scriptSortKey (filter hasSafeId (scriptFileItems sc)) =
        sort_key idOf (filter hasSafeId (scriptFileItems sc))"
    by (rule sort_key_cong_on) (simp add: scriptSortKey_def hasSafeId_def)
  then have g: "scriptFileItems (snd (makeScriptNode i sc)) =
     sort_key idOf (filter hasSafeId (scriptFileItems sc)) @ filter lacksSafeId (scriptFileItems sc)"
    using sort_key_partition [of "scriptFileItems sc"]
    by (simp add: makeScriptNode_items arraySort_sort_key)
  have e: "arraySort scriptItemCompare
             [item None ''1'', item (Some 5) ''2'', item None ''3'', item (Some 2) ''4'']
           = [item (Some 2) ''4'', item (Some 5) ''2'', item None ''1'', item None ''3'']"
    by (simp add: arraySort_def scriptItemCompare_def isSafeInteger_def item_def)
  show ?thesis using g e by (simp add: makeScriptNode_items)
qed

theorem makeScriptNode_sorts_safe_ids_first_witness:
  "scriptFileItems (snd (makeScriptNode 0 exNegativeIdScripts)) =
     sort_key idOf (filter hasSafeId [item None ''a'', item (Some (- 1)) ''b''])
     @ filter lacksSafeId [item None ''a'', item (Some (- 1)) ''b'']"
  using makeScriptNode_sorts_safe_ids_first [of 0 exNegativeIdScripts]
  by (simp add: exNegativeIdScripts_def)

text \<open>The claim restricts the leading group to non-negative ids. A record with id \<open>-1\<close>
  behind a record without id is moved to the front by the code, and stays behind in the
  claimed order.\<close>

theorem makeScriptNode_negative_id_first:
  "scriptFileItems (snd (makeScriptNode 0 exNegativeIdScripts))
     = [item (Some (- 1)) ''b'', item None ''a'']
   \<and> claimedScriptOrder (scriptFileItems exNegativeIdScripts)
     = [item None ''a'', item (Some (- 1)) ''b'']
   \<and> scriptFileItems (snd (makeScriptNode 0 exNegativeIdScripts))
     \<noteq> claimedScriptOrder (scriptFileItems exNegativeIdScripts)"
  by (simp add: makeScriptNode_items arraySort_def scriptItemCompare_def isSafeInteger_def item_def
        claimedScriptOrder_def hasNonNegativeId_def lacksNonNegativeId_def idOf_def
        exNegativeIdScripts_def)

subsection \<open>The render tree\<close>

lemma descendantsOrSelf_Cons: "descendantsOrSelf el = el # descendants el"
  by (cases el) (simp add: descendants_def)

lemma descendantsOrSelf_split:
  "r \<in> set (descendantsOrSelf d) \<Longrightarrow>
   \<exists>pre post. descendantsOrSelf d = pre @ descendantsOrSelf r @ post"
proof (induction d rule: descendantsOrSelf.induct)
  case (1 i g as cs)
  show ?case
  proof (cases "r = Element i g as cs")
    case True
    then show ?thesis by (metis append_Nil append_Nil2)
  next
    case False
    with "1.prems" obtain c where c: "c \<in> set cs"
      and rc: "r \<in> set (case c of TextNode _ \<Rightarrow> [] | ElementNode e \<Rightarrow> descendantsOrSelf e)"
      by auto
    then obtain e where e: "c = ElementNode e" and re: "r \<in> set (descendantsOrSelf e)"
      by (cases c) auto
    from "1.IH" [OF c e re] obtain pre post where
      pp: "descendantsOrSelf e = pre @ descendantsOrSelf r @ post" by blast
    from c obtain cs1 cs2 where cs: "cs = cs1 @ c # cs2" by (meson split_list)
    let ?f = "\<lambda>c. case c of TextNode _ \<Rightarrow> [] | ElementNode e \<Rightarrow> descendantsOrSelf e"
    have "descendantsOrSelf (Element i g as cs) =
            (Element i g as cs # concat (map ?f cs1) @ pre) @ descendantsOrSelf r
            @ (post @ concat (map ?f cs2))"
      by (simp add: cs e pp)
    then show ?thesis by blast
  qed
qed

lemma only_one_means_none_inside:
  assumes "documentGetElementsByTagName t d = [r]"
  shows "getElementsByTagName t r = []"
proof -
  from assms have "r \<in> set (filter (\<lambda>e. tagName e = t) (descendantsOrSelf d))"
    by (simp add: documentGetElementsByTagName_def)
  then have rin: "r \<in> set (descendantsOrSelf d)" and rt: "tagName r = t" by auto
  from descendantsOrSelf_split [OF rin] obtain pre post where
    "descendantsOrSelf d = pre @ descendantsOrSelf r @ post" by blast
  then have "filter (\<lambda>e. tagName e = t) pre @ r # filter (\<lambda>e. tagName e = t) (descendants r)
               @ filter (\<lambda>e. tagName e = t) post = [r]"
    using assms rt by (simp add: documentGetElementsByTagName_def descendantsOrSelf_Cons)
  then have "length (filter (\<lambda>e. tagName e = t) pre @ r # filter (\<lambda>e. tagName e = t) (descendants r)
               @ filter (\<lambda>e. tagName e = t) post) = 1"
    by simp
  then show ?thesis by (simp add: getElementsByTagName_def)
qed

lemma checkSC2Data_never_true: "fst (checkSC2Data d) = False"
proof (cases "documentGetElementsByTagName ''tw-storydata'' d")
  case Nil
  then show ?thesis by (simp add: checkSC2Data_def)
next
  case (Cons r rest)
  show ?thesis
  proof (cases rest)
    case Nil
    with Cons only_one_means_none_inside [of "''tw-storydata''" d r]
    show ?thesis by (simp add: checkSC2Data_def)
  next
    case (Cons r2 rest2)
    with \<open>documentGetElementsByTagName ''tw-storydata'' d = r # rest\<close>
    show ?thesis by (simp add: checkSC2Data_def)
  qed
qed






















subsection \<open>The caches and the patch pipeline\<close>

lemma applyPatchers_effect:
  "t < length (heap s) \<Longrightarrow>
   heap (applyPatchers m rps t s) = (heap s)[t := applyAll rps (heap s ! t)]
   \<and> sameBut s (applyPatchers m rps t s)
   \<and> filter isCallback (logged (applyPatchers m rps t s))
       = filter isCallback (logged s) @ concat (map (\<lambda>rp. patcherBracket (m, rp)) rps)
   \<and> filter isLoggerError (logged (applyPatchers m rps t s))
       = filter isLoggerError (logged s) @ map replacePatchErrorLine (thrownBy rps (heap s ! t))"
proof (induction rps arbitrary: s)
  case Nil
  then show ?case by (simp add: applyAll_def sameBut_def)
next
  case (Cons rp rps)
  let ?s0 = "say [ConsoleLog ''ModLoader ====== applyReplacePatcher() Replace Patch''
                     [m, patchFileName rp],
                   Callback ''ReplacePatcher_start'' [m, patchFileName rp]] s"
  let ?s1 = "case rp_applyReplacePatcher rp (heap ?s0 ! t) of
                 Returned v \<Rightarrow> ?s0\<lparr>heap := (heap ?s0)[t := v]\<rparr>
               | Threw e v \<Rightarrow> say (replacePatchErrorLog e) (?s0\<lparr>heap := (heap ?s0)[t := v]\<rparr>)"
  let ?s2 = "say [Callback ''ReplacePatcher_end'' [m, patchFileName rp],
                   ConsoleLog ''ModLoader ====== applyReplacePatcher() Replace Patch''
                     [m, patchFileName rp]] ?s1"
  have step: "applyPatchers m (rp # rps) t s = applyPatchers m rps t ?s2"
    by (simp add: Let_def)
  have h2: "heap ?s2 = (heap s)[t := snapshotOf (rp_applyReplacePatcher rp (heap s ! t))]"
    by (simp add: say_def snapshotOf_def split: transform_result.splits)
  have same2: "sameBut s ?s2"
    by (simp add: say_def sameBut_def split: transform_result.splits)
  have cb2: "filter isCallback (logged ?s2) = filter isCallback (logged s) @ patcherBracket (m, rp)"
    by (simp add: say_def isCallback_def patcherBracket_def replacePatchErrorLog_def
             split: transform_result.splits)
  have le2: "filter isLoggerError (logged ?s2)
             = filter isLoggerError (logged s)
               @ map replacePatchErrorLine
                   (case rp_applyReplacePatcher rp (heap s ! t) of Returned _ \<Rightarrow> [] | Threw e _ \<Rightarrow> [e])"
    by (simp add: say_def isLoggerError_def replacePatchErrorLog_def replacePatchErrorLine_def
             split: transform_result.splits)
  from Cons.prems have t2: "t < length (heap ?s2)" by (simp add: h2)
  from Cons.prems have v2: "heap ?s2 ! t = snapshotOf (rp_applyReplacePatcher rp (heap s ! t))"
    by (simp add: h2)
  show ?case
    using Cons.IH [OF t2] same2 Cons.prems
    unfolding step
    by (simp add: h2 v2 cb2 le2 applyAll_def sameBut_def snapshotOf_def
             split: transform_result.splits)
qed

lemma patchersInOrder_Cons:
  "patchersInOrder mc (n # order) =
     (case mc n of None \<Rightarrow> [] | Some m \<Rightarrow> map (Pair n) (replacePatcher m)) @ patchersInOrder mc order"
  by (simp add: patchersInOrder_def)

lemma applyAll_append: "applyAll (xs @ ys) v = applyAll ys (applyAll xs v)"
  by (simp add: applyAll_def)

lemma thrownBy_append: "thrownBy (xs @ ys) v = thrownBy xs v @ thrownBy ys (applyAll xs v)"
proof (induction xs arbitrary: v)
  case Nil
  then show ?case by (simp add: applyAll_def)
next
  case (Cons x xs)
  then show ?case by (simp add: applyAll_def snapshotOf_def split: transform_result.splits)
qed

lemma applyReplacePatcherLoop_effect:
  "t < length (heap s) \<Longrightarrow>
   heap (applyReplacePatcherLoop order t s)
     = (heap s)[t := applyAll (map snd (patchersInOrder (modCache s) order)) (heap s ! t)]
   \<and> sameBut s (applyReplacePatcherLoop order t s)
   \<and> filter isCallback (logged (applyReplacePatcherLoop order t s))
       = filter isCallback (logged s) @ concat (map patcherBracket (patchersInOrder (modCache s) order))
   \<and> filter isLoggerError (logged (applyReplacePatcherLoop order t s))
       = filter isLoggerError (logged s)
         @ map replacePatchErrorLine (thrownBy (map snd (patchersInOrder (modCache s) order)) (heap s ! t))"
proof (induction order arbitrary: s)
  case Nil
  then show ?case by (simp add: patchersInOrder_def applyAll_def sameBut_def)
next
  case (Cons n order)
  show ?case
  proof (cases "modCache s n")
    case None
    let ?s1 = "say [ConsoleError ''applyReplacePatcher() (!mod)'' [n]] s"
    have t1: "t < length (heap ?s1)" using Cons.prems by (simp add: say_def)
    from Cons.IH [OF t1] None show ?thesis
      by (simp add: patchersInOrder_Cons say_def sameBut_def isCallback_def isLoggerError_def)
  next
    case (Some m)
    let ?s1 = "applyPatchers n (replacePatcher m) t s"
    note e1 = applyPatchers_effect [OF Cons.prems, of n "replacePatcher m"]
    from e1 Cons.prems have t1: "t < length (heap ?s1)" by simp
    from e1 have mc: "modCache ?s1 = modCache s" by (simp add: sameBut_def)
    from e1 Cons.prems have v1: "heap ?s1 ! t = applyAll (replacePatcher m) (heap s ! t)" by simp
    have ms: "map (snd \<circ> Pair n) (replacePatcher m) = replacePatcher m" by (simp add: comp_def)
    have mb: "map (patcherBracket \<circ> Pair n) (replacePatcher m)
              = map (\<lambda>rp. patcherBracket (n, rp)) (replacePatcher m)" by (simp add: comp_def)
    from Cons.IH [OF t1] e1 Some Cons.prems show ?thesis
      by (simp add: patchersInOrder_Cons mc v1 ms mb applyAll_append thrownBy_append sameBut_def)
  qed
qed

lemma initSC2DataInfoCache_kept:
  "originSC2DataInfoCache s = Some a \<Longrightarrow> initSC2DataInfoCache X s = Inr s"
  by (simp add: initSC2DataInfoCache_def)

lemma initSC2DataInfoCache_first:
  "originSC2DataInfoCache s = None \<Longrightarrow>
   initSC2DataInfoCache X s =
     (case createNewSC2DataInfoFromNow X (document s) of
        Inl e \<Rightarrow> Inl e
      | Inr v \<Rightarrow> Inr (s\<lparr>heap := heap s @ [v], originSC2DataInfoCache := Some (length (heap s))\<rparr>))"
  by (simp add: initSC2DataInfoCache_def)

lemma initSC2DataInfoCache_effect:
  assumes "initSC2DataInfoCache X s = Inr s'"
  shows "(\<exists>ys. heap s' = heap s @ ys) \<and> onlyCaches s s' \<and> logged s' = logged s
         \<and> cSC2DataInfoAfterPatchCache s' = cSC2DataInfoAfterPatchCache s
         \<and> originSC2DataInfoCache s' \<noteq> None
         \<and> (\<forall>a. originSC2DataInfoCache s = Some a \<longrightarrow> s' = s)"
  using assms
  by (auto simp: initSC2DataInfoCache_def onlyCaches_def split: option.splits sum.splits)

lemma getSC2DataInfoAfterPatch_hit:
  "originSC2DataInfoCache s = Some b \<Longrightarrow> cSC2DataInfoAfterPatchCache s = Some a \<Longrightarrow>
   getSC2DataInfoAfterPatch X s = Inr (a, s)"
  by (simp add: getSC2DataInfoAfterPatch_def initSC2DataInfoCache_def)

lemma getSC2DataInfoAfterPatch_effect:
  assumes "getSC2DataInfoAfterPatch X s = Inr (a, s')"
  shows "cSC2DataInfoAfterPatchCache s' = Some a \<and> (\<exists>ys. heap s' = heap s @ ys)
         \<and> onlyCaches s s' \<and> originSC2DataInfoCache s' \<noteq> None
         \<and> (\<forall>b. originSC2DataInfoCache s = Some b \<longrightarrow> originSC2DataInfoCache s' = Some b)
         \<and> (cSC2DataInfoAfterPatchCache s = None \<longrightarrow>
              length (heap s) \<le> a \<and> a < length (heap s')
              \<and> createNewSC2DataInfoFromNow X (document s) = Inr (heap s' ! a)
              \<and> logged s' = logged s @ [ConsoleLog ''getSC2DataInfoAfterPatch() init cloneSC2DataInfo'' []])
         \<and> (\<forall>b. cSC2DataInfoAfterPatchCache s = Some b \<longrightarrow> a = b \<and> logged s' = logged s)"
  using assms
  by (auto simp: getSC2DataInfoAfterPatch_def initSC2DataInfoCache_def onlyCaches_def say_def
                 nth_append
           split: option.splits sum.splits)

lemma flushAfterPatchCache_effect:
  assumes "flushAfterPatchCache X s = Inr s'"
  shows "\<exists>a. cSC2DataInfoAfterPatchCache s' = Some a \<and> length (heap s) \<le> a \<and> a < length (heap s')
             \<and> createNewSC2DataInfoFromNow X (document s) = Inr (heap s' ! a)
             \<and> (\<exists>ys. heap s' = heap s @ ys) \<and> onlyCaches s s'
             \<and> originSC2DataInfoCache s' \<noteq> None
             \<and> (\<forall>b. originSC2DataInfoCache s = Some b \<longrightarrow> originSC2DataInfoCache s' = Some b)
             \<and> logged s' = logged s @ [ConsoleLog ''getSC2DataInfoAfterPatch() init cloneSC2DataInfo'' []]"
proof -
  from assms obtain a where
    g: "getSC2DataInfoAfterPatch X (s\<lparr>cSC2DataInfoAfterPatchCache := None\<rparr>) = Inr (a, s')"
    by (auto simp: flushAfterPatchCache_def split: sum.splits)
  from getSC2DataInfoAfterPatch_effect [OF g] show ?thesis
    by (simp add: onlyCaches_def)
qed

lemma applyReplacePatcher_effect:
  "t < length (heap s) \<Longrightarrow>
   heap (applyReplacePatcher t s) = (heap s)[t := applyAll (modTransforms s) (heap s ! t)]
   \<and> sameBut s (applyReplacePatcher t s)
   \<and> filter isCallback (logged (applyReplacePatcher t s))
       = filter isCallback (logged s)
         @ concat (map patcherBracket (patchersInOrder (modCache s) (modOrder s)))
   \<and> filter isLoggerError (logged (applyReplacePatcher t s))
       = filter isLoggerError (logged s)
         @ map replacePatchErrorLine (thrownBy (modTransforms s) (heap s ! t))"
  using applyReplacePatcherLoop_effect [of t s "modOrder s"]
  by (simp add: applyReplacePatcher_def modTransforms_def)

lemma patchModToGame_merge_effect:
  assumes "patchModToGame_merge X s = Inr (b, t, s')"
  shows "createNewSC2DataInfoFromNow X (document s) = Inr (heap s' ! b)
         \<and> cSC2DataInfoAfterPatchCache s' = Some b
         \<and> length (heap s) \<le> b \<and> b < t \<and> t < length (heap s')
         \<and> heap s' ! t =
             applyAll (modTransforms s)
               (replaceMerge X (cloneSC2DataInfo (heap s' ! b)) (normalMerge X (EmptyMod # modSnapshots s)))
         \<and> (\<exists>ys. heap s' = heap s @ ys)
         \<and> onlyCaches s s'
         \<and> originSC2DataInfoCache s' \<noteq> None
         \<and> (\<forall>a. originSC2DataInfoCache s = Some a \<longrightarrow> originSC2DataInfoCache s' = Some a)"
proof -
  let ?s0 = "say [Callback ''PatchModToGame_start'' []] s"
  from assms obtain s1 where
    f: "flushAfterPatchCache X (?s0\<lparr>cSC2DataInfoAfterPatchCache := None\<rparr>) = Inr s1"
    by (auto simp: patchModToGame_merge_def Let_def split: sum.splits)
  from flushAfterPatchCache_effect [OF f] obtain a ys where
    a: "cSC2DataInfoAfterPatchCache s1 = Some a" "length (heap s) \<le> a" "a < length (heap s1)"
       "createNewSC2DataInfoFromNow X (document s) = Inr (heap s1 ! a)"
       "heap s1 = heap s @ ys" "onlyCaches s s1" "originSC2DataInfoCache s1 \<noteq> None"
       "\<forall>b. originSC2DataInfoCache s = Some b \<longrightarrow> originSC2DataInfoCache s1 = Some b"
    by (auto simp: say_def onlyCaches_def)
  from a(7) obtain o1 where o1: "originSC2DataInfoCache s1 = Some o1" by auto
  have g: "getSC2DataInfoAfterPatch X s1 = Inr (a, s1)"
    by (rule getSC2DataInfoAfterPatch_hit [OF o1 a(1)])
  let ?nm = "normalMerge X (EmptyMod # modSnapshots s)"
  let ?rm = "replaceMerge X (cloneSC2DataInfo (heap s1 ! a)) ?nm"
  let ?s2 = "s1\<lparr>logged := logged s1 @ [ConsoleLog ''ModLoader ====== patchModToGame() Concat Mod'' [],
                                       ConsoleLog ''ModLoader ====== patchModToGame() Replace Game'' []],
                heap := heap s1 @ [?nm, ?rm]\<rparr>"
  have mm: "modCache s1 = modCache s" "modOrder s1 = modOrder s"
    using a(6) by (simp_all add: onlyCaches_def)
  from assms f g a(3) have r0: "b = a \<and> t = Suc (length (heap s1))
      \<and> s' = applyReplacePatcher (Suc (length (heap s1))) ?s2"
    by (auto simp: patchModToGame_merge_def Let_def say_def nth_append modSnapshots_def mm)
  then have r: "b = a" "t = Suc (length (heap s1))" "s' = applyReplacePatcher t ?s2"
    by simp_all
  have t2: "t < length (heap ?s2)" by (simp add: r(2))
  note e = applyReplacePatcher_effect [OF t2]
  have ts: "modTransforms ?s2 = modTransforms s" by (simp add: modTransforms_def mm)
  have h: "heap s' = heap s1 @ [?nm, applyAll (modTransforms s) ?rm]"
    using e by (simp add: r ts nth_append list_update_append)
  from e have sb: "sameBut ?s2 s'" by (simp add: r(3))
  show ?thesis
    using a sb o1
    by (auto simp: h r(1,2) nth_append sameBut_def onlyCaches_def)
qed

lemma patchModToGame_merge_total:
  assumes "rootNode (document s) = Some r"
  shows "\<exists>b t s'. patchModToGame_merge X s = Inr (b, t, s')"
proof -
  from assms obtain v where v: "createNewSC2DataInfoFromNow X (document s) = Inr v"
    by (simp add: createNewSC2DataInfoFromNow_def scriptNode_def styleNode_def passageDataNodeList_def)
  then show ?thesis
    by (auto simp: patchModToGame_merge_def flushAfterPatchCache_def getSC2DataInfoAfterPatch_def
          initSC2DataInfoCache_def say_def Let_def split: option.splits)
qed





lemma patchModToGame_phases:
  assumes "patchModToGame X s = Inr s'"
  obtains b t sm where "patchModToGame_merge X s = Inr (b, t, sm)"
    and "patchModToGame_swap X t sm = Inr s'"
  using assms by (auto simp: patchModToGame_def split: sum.splits)


lemma keepsObjects_refl: "keepsObjects s s"
  by (simp add: keepsObjects_def)

lemma keepsObjects_trans:
  assumes "keepsObjects s s1" "keepsObjects s1 s2"
  shows "keepsObjects s s2"
proof -
  from assms have l: "length (heap s) \<le> length (heap s1)" "length (heap s1) \<le> length (heap s2)"
    and t1: "take (length (heap s)) (heap s1) = heap s"
    and t2: "take (length (heap s1)) (heap s2) = heap s1"
    by (simp_all add: keepsObjects_def)
  have "take (length (heap s)) (take (length (heap s1)) (heap s2)) = take (length (heap s)) (heap s2)"
    using l(1) by (simp add: min_def)
  with t1 t2 have "take (length (heap s)) (heap s2) = heap s" by simp
  with l show ?thesis by (simp add: keepsObjects_def)
qed

lemma keepsObjects_append: "heap s' = heap s @ ys \<Longrightarrow> keepsObjects s s'"
  by (simp add: keepsObjects_def)

lemma keepsObjects_nth:
  assumes "keepsObjects s s'" "a < length (heap s)"
  shows "heap s' ! a = heap s ! a"
proof -
  from assms(1) have "take (length (heap s)) (heap s') = heap s" by (simp add: keepsObjects_def)
  then have "heap s ! a = take (length (heap s)) (heap s') ! a" by simp
  with assms(2) show ?thesis by simp
qed

lemma keeps_trans: "keeps s s1 \<Longrightarrow> keeps s1 s2 \<Longrightarrow> keeps s s2"
  by (auto simp: keeps_def intro: keepsObjects_trans)

lemma initSC2DataInfoCache_keeps: "initSC2DataInfoCache X s = Inr s' \<Longrightarrow> keeps s s'"
  using initSC2DataInfoCache_effect [of X s s']
  by (auto simp: keeps_def onlyCaches_def intro: keepsObjects_append)

lemma getSC2DataInfoAfterPatch_keeps: "getSC2DataInfoAfterPatch X s = Inr (a, s') \<Longrightarrow> keeps s s'"
  using getSC2DataInfoAfterPatch_effect [of X s a s']
  by (auto simp: keeps_def onlyCaches_def intro: keepsObjects_append)

lemma flushAfterPatchCache_keeps: "flushAfterPatchCache X s = Inr s' \<Longrightarrow> keeps s s'"
  using flushAfterPatchCache_effect [of X s s']
  by (auto simp: keeps_def onlyCaches_def intro: keepsObjects_append)

lemma earlyResetSC2DataInfoCache_keeps: "earlyResetSC2DataInfoCache X s = Inr s' \<Longrightarrow> keeps s s'"
  by (auto simp: earlyResetSC2DataInfoCache_def split: sum.splits
           intro: keeps_trans initSC2DataInfoCache_keeps flushAfterPatchCache_keeps)

lemma patchModToGame_swap_flush:
  assumes "patchModToGame_swap X t s = Inr s'"
  obtains N D s5 where
    "flushAfterPatchCache X
       (s\<lparr>heap := (heap s)[t := snd (makeScriptNode (nextId s) (heap s ! t))],
          nextId := N, document := D\<rparr>) = Inr s5"
    and "s' = say [Callback ''PatchModToGame_end'' []] s5"
  using assms
  by (auto simp: patchModToGame_swap_def Let_def split_beta simp del: upt_Suc
           split: option.splits sum.splits)

lemma patchModToGame_keeps:
  assumes "patchModToGame X s = Inr s'"
  shows "keeps s s'"
proof -
  from assms obtain b t sm where m: "patchModToGame_merge X s = Inr (b, t, sm)"
    and sw: "patchModToGame_swap X t sm = Inr s'"
    by (rule patchModToGame_phases)
  note em = patchModToGame_merge_effect [OF m]
  from em obtain ys where ys: "heap sm = heap s @ ys" by blast
  from em have lt: "length (heap s) \<le> t" by simp
  from sw obtain N D s5 where
    f: "flushAfterPatchCache X
          (sm\<lparr>heap := (heap sm)[t := snd (makeScriptNode (nextId sm) (heap sm ! t))],
              nextId := N, document := D\<rparr>) = Inr s5"
    and s': "s' = say [Callback ''PatchModToGame_end'' []] s5"
    by (rule patchModToGame_swap_flush)
  let ?s4 = "sm\<lparr>heap := (heap sm)[t := snd (makeScriptNode (nextId sm) (heap sm ! t))],
                nextId := N, document := D\<rparr>"
  have "heap ?s4 = heap s @ ys[t - length (heap s) := snd (makeScriptNode (nextId sm) (heap sm ! t))]"
    using lt by (simp add: ys list_update_append)
  then have "keepsObjects s ?s4" by (rule keepsObjects_append)
  then have k4: "keeps s ?s4"
    using em by (auto simp: keeps_def onlyCaches_def)
  from flushAfterPatchCache_keeps [OF f] have "keeps ?s4 s'"
    by (simp add: s' keeps_def keepsObjects_def say_def)
  with k4 show ?thesis by (rule keeps_trans)
qed

lemma startInit_phases:
  assumes "startInit X s = Inr s'" "\<not> startInitOk s"
  obtains s1 s2 s3 where
    "initSC2DataInfoCache X
       (say [ConsoleLog ''ModLoader ====== SC2DataManager startInit() start'' []]
          (s\<lparr>startInitOk := True\<rparr>)) = Inr s1"
    and "heap s2 = heap s1" and "originSC2DataInfoCache s2 = originSC2DataInfoCache s1"
    and "startInitOk s2 = startInitOk s1"
    and "patchModToGame X s2 = Inr s3"
    and "heap s' = heap s3" and "originSC2DataInfoCache s' = originSC2DataInfoCache s3"
    and "startInitOk s' = startInitOk s3"
proof -
  from assms obtain s1 where
    i: "initSC2DataInfoCache X
       (say [ConsoleLog ''ModLoader ====== SC2DataManager startInit() start'' []]
          (s\<lparr>startInitOk := True\<rparr>)) = Inr s1"
    by (auto simp: startInit_def Let_def split: sum.splits)
  with assms obtain mc mo where l: "loadMod X (modCache s1) (modOrder s1) = Inr (mc, mo)"
    by (auto simp: startInit_def Let_def split: sum.splits)
  let ?s2 = "say [ConsoleLog ''ModLoader ====== mod conflictResult''
                      (map (\<lambda>T. dataSource (fst T)) (checkModConflictList X mc mo)),
                    Callback ''triggerHook'' [''beforePatchModToGame'']]
                 (say [Callback ''DependenceChecker.check'' []] (s1\<lparr>modCache := mc, modOrder := mo\<rparr>)
                    \<lparr>conflictResult := Some (checkModConflictList X mc mo)\<rparr>)"
  from assms i l obtain s3 where p: "patchModToGame X ?s2 = Inr s3"
    and s': "s' = say [Callback ''triggerHook'' [''afterPatchModToGame''],
                        LoggerInfo (''ModLoader ====== SC2DataManager startInit() end. ''
                                    @ ''To Start JsPreloader.....'')] s3"
    by (auto simp: startInit_def Let_def say_def split: sum.splits)
  show thesis
    by (rule that [OF i _ _ _ p]) (simp_all add: say_def s')
qed

lemma startInit_keeps:
  assumes "startInit X s = Inr s'"
  shows "keeps s s' \<and> startInitOk s'"
proof (cases "startInitOk s")
  case True
  with assms show ?thesis by (auto simp: startInit_def say_def keeps_def keepsObjects_def)
next
  case False
  let ?s0 = "say [ConsoleLog ''ModLoader ====== SC2DataManager startInit() start'' []]
               (s\<lparr>startInitOk := True\<rparr>)"
  from assms False obtain s1 s2 s3 where
    i: "initSC2DataInfoCache X ?s0 = Inr s1"
    and e2: "heap s2 = heap s1" "originSC2DataInfoCache s2 = originSC2DataInfoCache s1"
            "startInitOk s2 = startInitOk s1"
    and p: "patchModToGame X s2 = Inr s3"
    and e4: "heap s' = heap s3" "originSC2DataInfoCache s' = originSC2DataInfoCache s3"
            "startInitOk s' = startInitOk s3"
    by (rule startInit_phases)
  have k0: "keeps s ?s0" by (simp add: keeps_def keepsObjects_def say_def)
  note k1 = initSC2DataInfoCache_keeps [OF i]
  have k2: "keeps s1 s2" by (simp add: keeps_def keepsObjects_def e2)
  note k3 = patchModToGame_keeps [OF p]
  have k4: "keeps s3 s'" by (simp add: keeps_def keepsObjects_def e4)
  have "keeps s s'" using k0 k1 k2 k3 k4 by (blast intro: keeps_trans)
  moreover have "startInitOk ?s0" by (simp add: say_def)
  then have "startInitOk s'" using k1 k2 k3 k4 by (simp add: keeps_def)
  ultimately show ?thesis by simp
qed

lemma perform_keeps: "perform X op s = Inr s' \<Longrightarrow> keeps s s'"
proof (cases op)
  case InitSC2DataInfoCache
  then show "perform X op s = Inr s' \<Longrightarrow> keeps s s'" by (simp add: initSC2DataInfoCache_keeps)
next
  case GetSC2DataInfoCache
  then show "perform X op s = Inr s' \<Longrightarrow> keeps s s'"
    by (auto simp: getSC2DataInfoCache_def split: sum.splits intro: initSC2DataInfoCache_keeps)
next
  case EarlyResetSC2DataInfoCache
  then show "perform X op s = Inr s' \<Longrightarrow> keeps s s'" by (simp add: earlyResetSC2DataInfoCache_keeps)
next
  case GetSC2DataInfoAfterPatch
  then show "perform X op s = Inr s' \<Longrightarrow> keeps s s'"
    by (cases "getSC2DataInfoAfterPatch X s") (auto intro: getSC2DataInfoAfterPatch_keeps)
next
  case FlushAfterPatchCache
  then show "perform X op s = Inr s' \<Longrightarrow> keeps s s'" by (simp add: flushAfterPatchCache_keeps)
next
  case PatchModToGame
  then show "perform X op s = Inr s' \<Longrightarrow> keeps s s'" by (simp add: patchModToGame_keeps)
next
  case StartInit
  then show "perform X op s = Inr s' \<Longrightarrow> keeps s s'" by (simp add: startInit_keeps)
qed

lemma performAll_keeps: "performAll X ops s = Inr s' \<Longrightarrow> keeps s s'"
proof (induction ops arbitrary: s)
  case Nil
  then show ?case by (simp add: keeps_def keepsObjects_def)
next
  case (Cons op ops)
  then show ?case by (auto split: sum.splits intro: keeps_trans perform_keeps)
qed

subsection \<open>The claims about the manager\<close>

lemma exRoot_found: "rootNode exDocument = Some exRoot"
  by (simp add: rootNode_def documentGetElementsByTagName_def exDocument_def exStoryData_def
        exRoot_def exStyle_def exScript_def exPassage_def)

lemma exCaptured_found: "createNewSC2DataInfoFromNow exExt exDocument = Inr exCaptured"
  by (simp add: createNewSC2DataInfoFromNow_def scriptNode_def styleNode_def
        passageDataNodeList_def exRoot_found exRoot_def getElementsByTagName_def descendants_def
        exStyle_def exScript_def exPassage_def exExt_def exCapture_def exItemOf_def
        getAttribute_def textOf_def exCaptured_def item_def toLowerCase_def ascii_lower_def)

lemma exModOrder: "List.map_filter (modCache exManager) (modOrder exManager) = [exMod ''bad.json'']"
  by (simp add: exManager_def List.map_filter_def exModCache_def)

lemma exPatched_found:
  "applyAll (modTransforms exManager)
     (replaceMerge exExt (cloneSC2DataInfo exCaptured)
        (normalMerge exExt (EmptyMod # modSnapshots exManager))) = exPatched"
  by (simp add: modSnapshots_def modTransforms_def patchersInOrder_def exModOrder
        exManager_def exModCache_def exMod_def applyAll_def snapshotOf_def
        exFailingPatcher_def exRelabelPatcher_def exFailingApply_def exRelabelApply_def
        exExt_def specNormalMerge_def specReplaceMerge_def cloneSC2DataInfo_def
        exCaptured_def EmptyMod_def exModSnapshot_def item_def exPatched_def)

text \<open>
  C1. For every mod table and load order, \<open>patchModToGame\<close> first takes the baseline: the
  after-patch cache is cleared and recomputed, so the baseline is the snapshot of the current
  render tree. It then computes \<open>normalMerge\<close> of the empty snapshot and the snapshots of
  the mods that the load order names and the mod table holds, in load order; folds the result
  with \<open>replaceMerge\<close> onto a clone of the baseline, which is another object than the
  baseline, so that the baseline object still holds the captured snapshot afterwards; and
  applies the transforms of those mods, in load order and declared order, to the outcome. The
  render tree is untouched so far, and the rest of \<open>patchModToGame\<close> is the swap of the
  render tree, run on that object. The sequence runs through whenever the document has a story
  data element.
\<close>

theorem patchModToGame_merge_sequence:
  "(rootNode (document s) = Some r \<longrightarrow> (\<exists>b t sm. patchModToGame_merge X s = Inr (b, t, sm)))
   \<and> (patchModToGame_merge X s = Inr (b, t, sm) \<longrightarrow>
        createNewSC2DataInfoFromNow X (document s) = Inr (heap sm ! b)
        \<and> cSC2DataInfoAfterPatchCache sm = Some b
        \<and> length (heap s) \<le> b \<and> b \<noteq> t \<and> t < length (heap sm)
        \<and> heap sm ! t =
            applyAll (modTransforms s)
              (replaceMerge X (cloneSC2DataInfo (heap sm ! b))
                 (normalMerge X (EmptyMod # modSnapshots s)))
        \<and> document sm = document s
        \<and> patchModToGame X s = patchModToGame_swap X t sm)"
proof (intro conjI impI)
  assume "rootNode (document s) = Some r"
  then show "\<exists>b t sm. patchModToGame_merge X s = Inr (b, t, sm)"
    by (rule patchModToGame_merge_total)
next
  assume m: "patchModToGame_merge X s = Inr (b, t, sm)"
  note e = patchModToGame_merge_effect [OF m]
  from e show "createNewSC2DataInfoFromNow X (document s) = Inr (heap sm ! b)" by simp
  from e show "cSC2DataInfoAfterPatchCache sm = Some b" by simp
  from e show "length (heap s) \<le> b" by simp
  from e show "b \<noteq> t" by simp
  from e show "t < length (heap sm)" by simp
  from e show "heap sm ! t =
            applyAll (modTransforms s)
              (replaceMerge X (cloneSC2DataInfo (heap sm ! b))
                 (normalMerge X (EmptyMod # modSnapshots s)))" by simp
  from e show "document sm = document s" by (simp add: onlyCaches_def)
  from m show "patchModToGame X s = patchModToGame_swap X t sm" by (simp add: patchModToGame_def)
qed

theorem patchModToGame_merge_sequence_witness:
  "rootNode (document exManager) = Some exRoot
   \<and> (\<exists>b t sm. patchModToGame_merge exExt exManager = Inr (b, t, sm)
        \<and> b \<noteq> t \<and> heap sm ! b = exCaptured \<and> heap sm ! t = exPatched
        \<and> cSC2DataInfoAfterPatchCache sm = Some b)"
proof -
  have r: "rootNode (document exManager) = Some exRoot" by (simp add: exManager_def exRoot_found)
  with patchModToGame_merge_sequence [of exManager exRoot exExt]
  obtain b t sm where m: "patchModToGame_merge exExt exManager = Inr (b, t, sm)" by blast
  have d: "document exManager = exDocument" by (simp add: exManager_def)
  from m patchModToGame_merge_sequence [of exManager exRoot exExt b t sm]
  have "b \<noteq> t \<and> heap sm ! b = exCaptured \<and> heap sm ! t = exPatched
        \<and> cSC2DataInfoAfterPatchCache sm = Some b"
    by (simp add: d exCaptured_found exPatched_found)
  with r m show ?thesis by blast
qed











lemma exRun_code: "map_sum id document (patchModToGame exExt exManager) = Inr exSwappedDocument"
  by code_simp


lemma exRecaptured_code: "createNewSC2DataInfoFromNow exExt exSwappedDocument = Inr exRecaptured"
  by code_simp





text \<open>
  C4. When \<open>patchModToGame\<close> returns, the after-patch cache refers to an object that holds
  the snapshot of the render tree as \<open>patchModToGame\<close> left it, and a following
  \<open>getSC2DataInfoAfterPatch\<close> returns that object and changes nothing. In general,
  \<open>flushAfterPatchCache\<close> clears the cache and recomputes it at once from the current
  render tree, into a new object; \<open>getSC2DataInfoAfterPatch\<close> computes the snapshot from
  the render tree when the cache is empty (at the first access, or after
  \<open>cleanAllCacheAfterModLoadEnd\<close> has emptied it) and returns the cached object,
  untouched, when it is not.
\<close>

theorem afterPatch_cache_recomputed:
  "(patchModToGame X s = Inr s' \<longrightarrow>
      (\<exists>a. cSC2DataInfoAfterPatchCache s' = Some a \<and> a < length (heap s')
           \<and> createNewSC2DataInfoFromNow X (document s') = Inr (heap s' ! a)
           \<and> getSC2DataInfoAfterPatch X s' = Inr (a, s')))
   \<and> (flushAfterPatchCache X s = Inr s1 \<longrightarrow>
        (\<exists>a. cSC2DataInfoAfterPatchCache s1 = Some a \<and> length (heap s) \<le> a \<and> a < length (heap s1)
             \<and> createNewSC2DataInfoFromNow X (document s) = Inr (heap s1 ! a)))
   \<and> (cSC2DataInfoAfterPatchCache s = None \<and> getSC2DataInfoAfterPatch X s = Inr (a2, s2) \<longrightarrow>
        cSC2DataInfoAfterPatchCache s2 = Some a2 \<and> length (heap s) \<le> a2 \<and> a2 < length (heap s2)
        \<and> createNewSC2DataInfoFromNow X (document s) = Inr (heap s2 ! a2))
   \<and> (cSC2DataInfoAfterPatchCache s = Some a3 \<and> a3 < length (heap s)
        \<and> getSC2DataInfoAfterPatch X s = Inr (a4, s3) \<longrightarrow>
        a4 = a3 \<and> cSC2DataInfoAfterPatchCache s3 = Some a3 \<and> heap s3 ! a3 = heap s ! a3)
   \<and> cSC2DataInfoAfterPatchCache (cleanAllCacheAfterModLoadEnd X s) = None"
proof -
  have p1: "\<exists>a. cSC2DataInfoAfterPatchCache s' = Some a \<and> a < length (heap s')
           \<and> createNewSC2DataInfoFromNow X (document s') = Inr (heap s' ! a)
           \<and> getSC2DataInfoAfterPatch X s' = Inr (a, s')"
    if run: "patchModToGame X s = Inr s'"
  proof -
    from run obtain b t sm where sw: "patchModToGame_swap X t sm = Inr s'"
      by (rule patchModToGame_phases)
    then obtain N D s5 where
      f: "flushAfterPatchCache X
            (sm\<lparr>heap := (heap sm)[t := snd (makeScriptNode (nextId sm) (heap sm ! t))],
                nextId := N, document := D\<rparr>) = Inr s5"
      and s': "s' = say [Callback ''PatchModToGame_end'' []] s5"
      by (rule patchModToGame_swap_flush)
    from flushAfterPatchCache_effect [OF f] obtain a where
      a: "cSC2DataInfoAfterPatchCache s5 = Some a" "a < length (heap s5)"
         "createNewSC2DataInfoFromNow X D = Inr (heap s5 ! a)"
         "document s5 = D" "originSC2DataInfoCache s5 \<noteq> None"
      by (auto simp: onlyCaches_def)
    from a(5) obtain b' where o: "originSC2DataInfoCache s' = Some b'" by (auto simp: s' say_def)
    from a(1) have c: "cSC2DataInfoAfterPatchCache s' = Some a" by (simp add: s' say_def)
    from getSC2DataInfoAfterPatch_hit [OF o c] a c show ?thesis by (simp add: s' say_def)
  qed
  have p2: "\<exists>a. cSC2DataInfoAfterPatchCache s1 = Some a \<and> length (heap s) \<le> a \<and> a < length (heap s1)
             \<and> createNewSC2DataInfoFromNow X (document s) = Inr (heap s1 ! a)"
    if "flushAfterPatchCache X s = Inr s1"
    using flushAfterPatchCache_effect [OF that] by blast
  have p3: "cSC2DataInfoAfterPatchCache s2 = Some a2 \<and> length (heap s) \<le> a2 \<and> a2 < length (heap s2)
        \<and> createNewSC2DataInfoFromNow X (document s) = Inr (heap s2 ! a2)"
    if "cSC2DataInfoAfterPatchCache s = None" and g: "getSC2DataInfoAfterPatch X s = Inr (a2, s2)"
    using getSC2DataInfoAfterPatch_effect [OF g] that(1) by simp
  have p4: "a4 = a3 \<and> cSC2DataInfoAfterPatchCache s3 = Some a3 \<and> heap s3 ! a3 = heap s ! a3"
    if c: "cSC2DataInfoAfterPatchCache s = Some a3" and l: "a3 < length (heap s)"
      and g: "getSC2DataInfoAfterPatch X s = Inr (a4, s3)"
  proof -
    from getSC2DataInfoAfterPatch_keeps [OF g] l have "heap s3 ! a3 = heap s ! a3"
      by (simp add: keeps_def keepsObjects_nth)
    with getSC2DataInfoAfterPatch_effect [OF g] c show ?thesis by simp
  qed
  have p5: "cSC2DataInfoAfterPatchCache (cleanAllCacheAfterModLoadEnd X s) = None"
    by (simp add: cleanAllCacheAfterModLoadEnd_def Let_def)
  from p1 p2 p3 p4 p5 show ?thesis by blast
qed

theorem afterPatch_cache_recomputed_witness:
  "\<exists>s' a. patchModToGame exExt exManager = Inr s' \<and> document s' = exSwappedDocument
     \<and> cSC2DataInfoAfterPatchCache s' = Some a \<and> heap s' ! a = exRecaptured
     \<and> getSC2DataInfoAfterPatch exExt s' = Inr (a, s')"
proof -
  from exRun_code obtain s' where run: "patchModToGame exExt exManager = Inr s'"
    and d: "document s' = exSwappedDocument"
    by (cases "patchModToGame exExt exManager") auto
  from run afterPatch_cache_recomputed [of exExt exManager s'] obtain a where
    "cSC2DataInfoAfterPatchCache s' = Some a"
    "createNewSC2DataInfoFromNow exExt (document s') = Inr (heap s' ! a)"
    "getSC2DataInfoAfterPatch exExt s' = Inr (a, s')"
    by blast
  with run d show ?thesis by (auto simp: exRecaptured_code)
qed

text \<open>
  C5, as the code has it. \<open>applyReplacePatcher\<close> is a total function of the state: for
  every mod table, load order and list of transforms it returns, and nothing is raised out of
  its loops. Every transform of every mod that the load order names and the mod table holds is
  applied, in order, to the snapshot as the transforms before it left it, whether they threw
  or not. Each application is announced by a start and an end notification that carry the mod
  name and the patch file name; a throw adds an error line to the logger, which carries the
  thrown text and nothing else.
\<close>

theorem applyReplacePatcher_continues_after_throw:
  assumes "t < length (heap s)"
  shows "heap (applyReplacePatcher t s) = (heap s)[t := applyAll (modTransforms s) (heap s ! t)]
         \<and> filter isCallback (logged (applyReplacePatcher t s))
             = filter isCallback (logged s)
               @ concat (map patcherBracket (patchersInOrder (modCache s) (modOrder s)))
         \<and> filter isLoggerError (logged (applyReplacePatcher t s))
             = filter isLoggerError (logged s)
               @ map replacePatchErrorLine (thrownBy (modTransforms s) (heap s ! t))
         \<and> sameBut s (applyReplacePatcher t s)"
  using applyReplacePatcher_effect [OF assms] by simp

theorem applyReplacePatcher_continues_after_throw_witness:
  "(0::nat) < length (heap (exPatchState ''modA'' ''bad.json''))
   \<and> modTransforms (exPatchState ''modA'' ''bad.json'') = [exFailingPatcher ''bad.json'', exRelabelPatcher]
   \<and> heap (applyReplacePatcher 0 (exPatchState ''modA'' ''bad.json''))
       = [exCaptured\<lparr>dataSource := ''patched''\<rparr>]
   \<and> filter isCallback (logged (applyReplacePatcher 0 (exPatchState ''modA'' ''bad.json'')))
       = [Callback ''ReplacePatcher_start'' [''modA'', ''bad.json''],
          Callback ''ReplacePatcher_end'' [''modA'', ''bad.json''],
          Callback ''ReplacePatcher_start'' [''modA'', ''relabel.json''],
          Callback ''ReplacePatcher_end'' [''modA'', ''relabel.json'']]
   \<and> filter isLoggerError (logged (applyReplacePatcher 0 (exPatchState ''modA'' ''bad.json'')))
       = [replacePatchErrorLine ''boom'']"
proof -
  have l: "(0::nat) < length (heap (exPatchState ''modA'' ''bad.json''))"
    by (simp add: exPatchState_def)
  have p: "patchersInOrder (modCache (exPatchState ''modA'' ''bad.json''))
             (modOrder (exPatchState ''modA'' ''bad.json''))
           = [(''modA'', exFailingPatcher ''bad.json''), (''modA'', exRelabelPatcher)]"
    by (simp add: exPatchState_def patchersInOrder_def exModCache_def exMod_def)
  have m: "modTransforms (exPatchState ''modA'' ''bad.json'')
           = [exFailingPatcher ''bad.json'', exRelabelPatcher]"
    by (simp add: modTransforms_def p)
  have h: "heap (exPatchState ''modA'' ''bad.json'') = [exCaptured]"
    "logged (exPatchState ''modA'' ''bad.json'') = []"
    by (simp_all add: exPatchState_def exManager_def)
  from applyReplacePatcher_continues_after_throw [OF l] l m show ?thesis
    by (simp add: p h applyAll_def snapshotOf_def patcherBracket_def
          exFailingPatcher_def exRelabelPatcher_def exFailingApply_def exRelabelApply_def)
qed

text \<open>The claim has the throw logged with the mod name and the identity of the transform.
  The same throw from two mods with different names and patch files leaves the same error
  reports on the console and in the logger: the thrown text, and nothing of the mod or the
  transform.\<close>

theorem applyReplacePatcher_error_report_anonymous:
  "filter isErrorReport (logged (applyReplacePatcher 0 (exPatchState ''modA'' ''a.json'')))
     = replacePatchErrorLog ''boom''
   \<and> filter isErrorReport (logged (applyReplacePatcher 0 (exPatchState ''modB'' ''b.json'')))
     = replacePatchErrorLog ''boom''
   \<and> modOrder (exPatchState ''modA'' ''a.json'') = [''modA'']
   \<and> modOrder (exPatchState ''modB'' ''b.json'') = [''modB'']
   \<and> map patchFileName (modTransforms (exPatchState ''modA'' ''a.json'')) = [''a.json'', ''relabel.json'']
   \<and> map patchFileName (modTransforms (exPatchState ''modB'' ''b.json'')) = [''b.json'', ''relabel.json'']"
  by code_simp




text \<open>
  C7. While \<open>originSC2DataInfoCache\<close> is empty, \<open>getSC2DataInfoCache\<close> captures the
  snapshot of the render tree into a new object and returns it. From then on
  \<open>initSC2DataInfoCache\<close> changes nothing, \<open>getSC2DataInfoCache\<close> returns that object,
  and every sequence of the operations \<open>initSC2DataInfoCache\<close>,
  \<open>getSC2DataInfoCache\<close>, \<open>earlyResetSC2DataInfoCache\<close>,
  \<open>getSC2DataInfoAfterPatch\<close>, \<open>flushAfterPatchCache\<close>, \<open>patchModToGame\<close> and
  \<open>startInit\<close> leaves the reference and the content of the object as they were.
  \<open>cleanAllCacheAfterModLoadEnd\<close> empties the reference.
\<close>

theorem origin_snapshot_captured_once:
  "(originSC2DataInfoCache s = None \<and> createNewSC2DataInfoFromNow X (document s) = Inr v \<longrightarrow>
      getSC2DataInfoCache X s
        = Inr (Some (length (heap s)),
               s\<lparr>heap := heap s @ [v], originSC2DataInfoCache := Some (length (heap s))\<rparr>))
   \<and> (originSC2DataInfoCache s = Some a \<and> a < length (heap s) \<longrightarrow>
        initSC2DataInfoCache X s = Inr s
        \<and> getSC2DataInfoCache X s = Inr (Some a, s)
        \<and> (performAll X ops s = Inr s' \<longrightarrow>
             originSC2DataInfoCache s' = Some a \<and> a < length (heap s') \<and> heap s' ! a = heap s ! a))
   \<and> originSC2DataInfoCache (cleanAllCacheAfterModLoadEnd X s) = None"
proof -
  have p1: "getSC2DataInfoCache X s
        = Inr (Some (length (heap s)),
               s\<lparr>heap := heap s @ [v], originSC2DataInfoCache := Some (length (heap s))\<rparr>)"
    if "originSC2DataInfoCache s = None" "createNewSC2DataInfoFromNow X (document s) = Inr v"
    using that by (simp add: getSC2DataInfoCache_def initSC2DataInfoCache_def)
  have p2: "initSC2DataInfoCache X s = Inr s \<and> getSC2DataInfoCache X s = Inr (Some a, s)"
    if "originSC2DataInfoCache s = Some a"
    using that by (simp add: getSC2DataInfoCache_def initSC2DataInfoCache_def)
  have p3: "originSC2DataInfoCache s' = Some a \<and> a < length (heap s') \<and> heap s' ! a = heap s ! a"
    if o: "originSC2DataInfoCache s = Some a" and l: "a < length (heap s)"
      and r: "performAll X ops s = Inr s'"
  proof -
    from performAll_keeps [OF r] have k: "keeps s s'" .
    then have "keepsObjects s s'" by (simp add: keeps_def)
    from keepsObjects_nth [OF this l] k o l show ?thesis
      by (simp add: keeps_def keepsObjects_def)
  qed
  have p4: "originSC2DataInfoCache (cleanAllCacheAfterModLoadEnd X s) = None"
    by (simp add: cleanAllCacheAfterModLoadEnd_def Let_def)
  from p1 p2 p3 p4 show ?thesis by blast
qed

lemma exOps_code:
  "map_sum id document
     (performAll exExt [EarlyResetSC2DataInfoCache, PatchModToGame, GetSC2DataInfoCache] exCapturedState)
   = Inr exSwappedDocument"
  by code_simp

theorem origin_snapshot_captured_once_witness:
  "originSC2DataInfoCache exCapturedState = Some 0 \<and> 0 < length (heap exCapturedState)
   \<and> getSC2DataInfoCache exExt exCapturedState = Inr (Some 0, exCapturedState)
   \<and> (\<exists>s'. performAll exExt [EarlyResetSC2DataInfoCache, PatchModToGame, GetSC2DataInfoCache]
              exCapturedState = Inr s'
          \<and> document s' = exSwappedDocument
          \<and> originSC2DataInfoCache s' = Some 0 \<and> heap s' ! 0 = exCaptured)"
proof -
  have a: "originSC2DataInfoCache exCapturedState = Some 0" "0 < length (heap exCapturedState)"
    "heap exCapturedState ! 0 = exCaptured"
    by (simp_all add: exCapturedState_def)
  from exOps_code obtain s' where
    r: "performAll exExt [EarlyResetSC2DataInfoCache, PatchModToGame, GetSC2DataInfoCache]
          exCapturedState = Inr s'"
    and d: "document s' = exSwappedDocument"
    by (cases "performAll exExt [EarlyResetSC2DataInfoCache, PatchModToGame, GetSC2DataInfoCache]
                 exCapturedState") auto
  from origin_snapshot_captured_once
         [of exCapturedState exExt _ 0 "[EarlyResetSC2DataInfoCache, PatchModToGame, GetSC2DataInfoCache]" s']
       a r d
  show ?thesis by auto
qed




text \<open>The last count check reads the elements named \<open>tw-storydata\<close> inside the root, not
  the passage elements, so a document with a passage element is rejected there as well.\<close>

lemma checkSC2Data_one_passage_rejected:
  "length (getElementsByTagName ''tw-passagedata'' exRoot) = 1
   \<and> rootNode exDocument = Some exRoot
   \<and> checkSC2Data exDocument
       = (False, [ConsoleError ''checkSC2Data() (passageDataNodes.length < 1)'' []])"
  by code_simp

end
